theory Spec2Isabelle
  imports Main "HOL-Library.Multiset" "HOL-Library.AList"
begin

section \<open>Strings\<close>

text \<open>
  JavaScript strings are modelled as \<^typ>\<open>string\<close>; a character stands for a code unit
  below 256.  Of these, \<open>String.prototype.trim\<close> and the regular expression class
  \<open>\s\<close> treat the code units 9 to 13, 32 and 160 as white space.
\<close>

definition is_space :: "char \<Rightarrow> bool" where
  "is_space c = (c \<in> set [CHR 0x09, CHR 0x0A, CHR 0x0B, CHR 0x0C, CHR 0x0D, CHR 0x20, CHR 0xA0])"

definition trim :: "string \<Rightarrow> string" where
  "trim s = rev (dropWhile is_space (rev (dropWhile is_space s)))"

text \<open>\<open>Array.prototype.join\<close>.\<close>

fun join :: "string \<Rightarrow> string list \<Rightarrow> string" where
  "join sep [] = []"
| "join sep [x] = x"
| "join sep (x # y # ys) = x @ sep @ join sep (y # ys)"

text \<open>\<open>String.prototype.toLowerCase\<close> on code units below 256: the letters that have a
  lower-case form, and their forms.\<close>

definition upperChars :: "char list" where
  "upperChars =
     ''ABCDEFGHIJKLMNOPQRSTUVWXYZ'' @
     [CHR 0xC0, CHR 0xC1, CHR 0xC2, CHR 0xC3, CHR 0xC4, CHR 0xC5, CHR 0xC6, CHR 0xC7,
      CHR 0xC8, CHR 0xC9, CHR 0xCA, CHR 0xCB, CHR 0xCC, CHR 0xCD, CHR 0xCE, CHR 0xCF,
      CHR 0xD0, CHR 0xD1, CHR 0xD2, CHR 0xD3, CHR 0xD4, CHR 0xD5, CHR 0xD6,
      CHR 0xD8, CHR 0xD9, CHR 0xDA, CHR 0xDB, CHR 0xDC, CHR 0xDD, CHR 0xDE]"

definition lowerChars :: "char list" where
  "lowerChars =
     ''abcdefghijklmnopqrstuvwxyz'' @
     [CHR 0xE0, CHR 0xE1, CHR 0xE2, CHR 0xE3, CHR 0xE4, CHR 0xE5, CHR 0xE6, CHR 0xE7,
      CHR 0xE8, CHR 0xE9, CHR 0xEA, CHR 0xEB, CHR 0xEC, CHR 0xED, CHR 0xEE, CHR 0xEF,
      CHR 0xF0, CHR 0xF1, CHR 0xF2, CHR 0xF3, CHR 0xF4, CHR 0xF5, CHR 0xF6,
      CHR 0xF8, CHR 0xF9, CHR 0xFA, CHR 0xFB, CHR 0xFC, CHR 0xFD, CHR 0xFE]"

definition lower_char :: "char \<Rightarrow> char" where
  "lower_char c = (case map_of (zip upperChars lowerChars) c of None \<Rightarrow> c | Some l \<Rightarrow> l)"

definition toLowerCase :: "string \<Rightarrow> string" where
  "toLowerCase s = map lower_char s"

text \<open>The decimal numeral that a template literal prints for a non-negative integer.\<close>

fun digits_of :: "nat \<Rightarrow> string" where
  "digits_of n =
     (if n < 10 then [''0123456789'' ! n]
      else digits_of (n div 10) @ [''0123456789'' ! (n mod 10)])"

declare digits_of.simps [simp del]

section \<open>The document tree\<close>

text \<open>
  \<open>element.className\<close> is a string on an HTML element and an \<open>SVGAnimatedString\<close>
  object (carrying the attribute in \<open>baseVal\<close>) on an SVG element.
\<close>

datatype classval = ClassString string | SVGAnimatedString string

text \<open>The three properties of \<open>window.getComputedStyle(element)\<close> that the code reads.\<close>

record css =
  display :: string
  visibility :: string
  opacity :: string

text \<open>
  The properties of an element that the code reads.  \<open>attributes\<close> are the attributes in
  document order, as names and values; \<open>nameProp\<close> and \<open>href\<close> are the properties
  \<open>name\<close> and \<open>href\<close>, which only some elements have; \<open>width\<close> and \<open>height\<close> are the
  element's bounding box (\<open>offsetWidth\<close>, \<open>offsetHeight\<close>).
\<close>

record props =
  tagName :: string
  elemId :: string
  className :: classval
  classList :: "string list"
  attributes :: "(string \<times> string) list"
  role :: "string option"
  type_prop :: "string option"
  nameProp :: "string option"
  href :: "string option"
  style :: css
  width :: nat
  height :: nat

text \<open>A child node: a text node, an element with its own child nodes, or any other node
  (a comment, a processing instruction).\<close>

datatype node = TextNode string | ElemNode props "node list" | OtherNode

text \<open>
  A reference to an element of a live document is the element together with its way up:
  for every ancestor, nearest first, the ancestor's properties and the child nodes to the
  left and to the right of the child the reference came through.  Two references into the
  same document denote the same node exactly when they are equal, so \<open>===\<close> on elements is
  equality.
\<close>

record crumb =
  parentProps :: props
  left :: "node list"
  right :: "node list"

record element =
  eprops :: props
  childNodes :: "node list"
  ancestors :: "crumb list"

definition as_node :: "element \<Rightarrow> node" where
  "as_node e = ElemNode (eprops e) (childNodes e)"

definition parentElement :: "element \<Rightarrow> element option" where
  "parentElement e =
     (case ancestors e of
        [] \<Rightarrow> None
      | c # cs \<Rightarrow> Some \<lparr>eprops = parentProps c,
                         childNodes = left c @ [as_node e] @ right c,
                         ancestors = cs\<rparr>)"

text \<open>The \<open>i\<close>-th child node of an element, as a reference, when it is an element.\<close>

definition childAt :: "element \<Rightarrow> nat \<Rightarrow> element option" where
  "childAt e i =
     (if i < length (childNodes e) then
        (case childNodes e ! i of
           ElemNode p ns \<Rightarrow>
             Some \<lparr>eprops = p, childNodes = ns,
                   ancestors = \<lparr>parentProps = eprops e, left = take i (childNodes e),
                                 right = drop (Suc i) (childNodes e)\<rparr> # ancestors e\<rparr>
         | _ \<Rightarrow> None)
      else None)"

text \<open>\<open>parent.children\<close>: the element children only, here by their properties.\<close>

fun elementProps :: "node list \<Rightarrow> props list" where
  "elementProps [] = []"
| "elementProps (ElemNode p ns # xs) = p # elementProps xs"
| "elementProps (_ # xs) = elementProps xs"

section \<open>Utils\<close>

text \<open>
  \<open>Utils.getVisibleText\<close> (container-context-strategy.js, lines 274-292), on a non-null
  element: the empty string for one of three computed styles, otherwise every text-node
  child trimmed, the pieces joined by one space, the result trimmed.
\<close>

fun textNodes :: "node list \<Rightarrow> string list" where
  "textNodes [] = []"
| "textNodes (TextNode t # xs) = trim t # textNodes xs"
| "textNodes (_ # xs) = textNodes xs"

definition getVisibleText :: "element \<Rightarrow> string" where
  "getVisibleText e =
     (let st = style (eprops e)
      in if display st = ''none'' \<or> visibility st = ''hidden'' \<or> opacity st = ''0''
         then ''''
         else trim (join '' '' (textNodes (childNodes e))))"

text \<open>
  \<open>Utils.getElementIndex\<close> (lines 341-348): 1 without a parent, otherwise the 1-based
  position of the element among the parent's element children of the same tag name.
\<close>

definition getElementIndex :: "element \<Rightarrow> nat" where
  "getElementIndex e =
     (case ancestors e of
        [] \<Rightarrow> 1
      | c # cs \<Rightarrow>
          length (filter (\<lambda>p. tagName p = tagName (eprops e)) (elementProps (left c))) + 1)"

text \<open>
  \<open>XPathGenerator.generateFallbackXPath\<close> (xpath-generator.js, lines 139-158).  The loop
  runs from the element upwards while there is a current element other than
  \<open>document.body\<close>; a non-empty \<open>id\<close> ends it.  \<open>body\<close> is \<open>document.body\<close>, which may be
  null.
\<close>

function fallbackLoop :: "element option \<Rightarrow> element option \<Rightarrow> string list \<Rightarrow> string list" where
  "fallbackLoop body current path =
     (case current of
        None \<Rightarrow> path
      | Some cur \<Rightarrow>
          if Some cur = body then path
          else
            let tag = toLowerCase (tagName (eprops cur));
                index = getElementIndex cur
            in if elemId (eprops cur) \<noteq> ''''
               then (''//'' @ tag @ ''[@id='' @ [CHR 0x27] @ elemId (eprops cur) @ [CHR 0x27] @ '']'') # path
               else fallbackLoop body (parentElement cur)
                      ((tag @ ''['' @ digits_of index @ '']'') # path))"
  by pat_completeness auto
termination
  by (relation "measure (\<lambda>(body, current, path).
        case current of None \<Rightarrow> 0 | Some c \<Rightarrow> Suc (length (ancestors c)))")
     (auto simp: parentElement_def split: list.splits option.splits)

declare fallbackLoop.simps [simp del]

definition generateFallbackXPath :: "element option \<Rightarrow> element \<Rightarrow> string" where
  "generateFallbackXPath body el =
     (let path = fallbackLoop body (Some el) []
      in if length path > 0 then ''/'' @ join ''/'' path
         else ''//'' @ toLowerCase (tagName (eprops el)))"

section \<open>Regular expressions\<close>

text \<open>
  The regular expressions of the source are values of \<open>rx\<close>; \<open>Sym cs\<close> is a character
  class, given by its members, and \<open>Any\<close> is any one character.  \<open>rx_test r s\<close> is
  \<open>r.test(s)\<close> for a pattern anchored at both ends, computed with derivatives.
\<close>

datatype rx = Zero | Eps | Any | Sym "char list" | Seq rx rx | Alt rx rx | Star rx

fun nullable :: "rx \<Rightarrow> bool" where
  "nullable Zero = False"
| "nullable Eps = True"
| "nullable Any = False"
| "nullable (Sym cs) = False"
| "nullable (Seq r s) = (nullable r \<and> nullable s)"
| "nullable (Alt r s) = (nullable r \<or> nullable s)"
| "nullable (Star r) = True"

fun deriv :: "char \<Rightarrow> rx \<Rightarrow> rx" where
  "deriv c Zero = Zero"
| "deriv c Eps = Zero"
| "deriv c Any = Eps"
| "deriv c (Sym cs) = (if c \<in> set cs then Eps else Zero)"
| "deriv c (Seq r s) =
     (if nullable r then Alt (Seq (deriv c r) s) (deriv c s) else Seq (deriv c r) s)"
| "deriv c (Alt r s) = Alt (deriv c r) (deriv c s)"
| "deriv c (Star r) = Seq (deriv c r) (Star r)"

fun rx_test :: "rx \<Rightarrow> string \<Rightarrow> bool" where
  "rx_test r [] = nullable r"
| "rx_test r (c # cs) = rx_test (deriv c r) cs"

definition Plus :: "rx \<Rightarrow> rx" where
  "Plus r = Seq r (Star r)"

text \<open>\<open>r{n,}\<close>\<close>

fun AtLeast :: "nat \<Rightarrow> rx \<Rightarrow> rx" where
  "AtLeast 0 r = Star r"
| "AtLeast (Suc n) r = Seq r (AtLeast n r)"

text \<open>A literal string.\<close>

fun Lit :: "string \<Rightarrow> rx" where
  "Lit [] = Eps"
| "Lit (c # cs) = Seq (Sym [c]) (Lit cs)"

text \<open>The classes \<open>[a-z]\<close>, \<open>[a-f0-9]\<close> and \<open>[a-z0-9-]\<close> under the flag \<open>i\<close>.\<close>

definition letters :: "char list" where
  "letters = ''abcdefghijklmnopqrstuvwxyzABCDEFGHIJKLMNOPQRSTUVWXYZ''"

definition hexdigits :: "char list" where
  "hexdigits = ''abcdefABCDEF0123456789''"

definition alnumdash :: "char list" where
  "alnumdash = letters @ ''0123456789-''"

text \<open>
  \<open>s.split(/\s+/)\<close>: the pieces between maximal runs of white space, with an empty piece
  before a leading and after a trailing run.
\<close>

definition startsWithSpace :: "string \<Rightarrow> bool" where
  "startsWithSpace s = (case s of [] \<Rightarrow> False | c # cs \<Rightarrow> is_space c)"

fun splitWs :: "string \<Rightarrow> string list" where
  "splitWs [] = [[]]"
| "splitWs (c # cs) =
     (if is_space c then
        (if startsWithSpace cs then splitWs cs else [] # splitWs cs)
      else (case splitWs cs of [] \<Rightarrow> [[c]] | t # ts \<Rightarrow> (c # t) # ts))"

section \<open>Strategies and the strategy manager\<close>

text \<open>An exception, with its message.\<close>

datatype exn = Exn string

text \<open>
  \<open>BaseStrategy\<close> (base-strategy.js): a name, a priority and the three methods, each of
  which may throw.  \<open>generate\<close> returns a string or null.  \<open>'c\<close> is the context object.
\<close>

record 'c strategy =
  name :: string
  priority :: int
  isApplicable :: "element \<Rightarrow> 'c \<Rightarrow> exn + bool"
  generate :: "element \<Rightarrow> 'c \<Rightarrow> exn + string option"
  getScore :: "element \<Rightarrow> 'c \<Rightarrow> exn + int"

text \<open>
  \<open>BaseStrategy.validateXPath\<close> (lines 38-52).  \<open>evaluate\<close> is \<open>document.evaluate\<close> on the
  whole document: the matching nodes in document order, or a syntax error.  With
  \<open>FIRST_ORDERED_NODE_TYPE\<close>, \<open>singleNodeValue\<close> is the first of them, or null.
\<close>

definition singleNodeValue :: "element list \<Rightarrow> element option" where
  "singleNodeValue ns = (case ns of [] \<Rightarrow> None | n # _ \<Rightarrow> Some n)"

definition validateXPath :: "(string \<Rightarrow> exn + element list) \<Rightarrow> string \<Rightarrow> element \<Rightarrow> bool" where
  "validateXPath evaluate xpath targetElement =
     (case evaluate xpath of
        Inl error \<Rightarrow> False
      | Inr result \<Rightarrow> singleNodeValue result = Some targetElement)"

text \<open>
  \<open>XPathGenerator.validateXPath\<close> (xpath-generator.js, lines 166-196), which takes a
  snapshot of all matches.  The three messages are: the validation succeeded, the
  expression does not match the target, and a syntax error with the exception's message.
\<close>

datatype validationMessage = ValidationOk | NotTheTarget | SyntaxError string

record validation =
  valid :: bool
  unique :: bool
  correct :: bool
  matchCount :: nat
  vmessage :: validationMessage

definition generatorValidateXPath ::
  "(string \<Rightarrow> exn + element list) \<Rightarrow> string \<Rightarrow> element \<Rightarrow> validation" where
  "generatorValidateXPath evaluate xpath targetElement =
     (case evaluate xpath of
        Inl (Exn m) \<Rightarrow>
          \<lparr>valid = False, unique = False, correct = False, matchCount = 0,
           vmessage = SyntaxError m\<rparr>
      | Inr result \<Rightarrow>
          let isUnique = (length result = 1);
              isCorrect = (case result of [] \<Rightarrow> False | n # ns \<Rightarrow> n = targetElement)
          in \<lparr>valid = True, unique = isUnique, correct = isCorrect,
              matchCount = length result,
              vmessage = (if isCorrect then ValidationOk else NotTheTarget)\<rparr>)"

text \<open>The entries of \<open>results\<close> in \<open>StrategyManager.generateXPath\<close>.\<close>

record candidate =
  strategy :: string
  xpath :: string
  score :: int
  cand_priority :: int

text \<open>The object that \<open>StrategyManager.generateXPath\<close> returns.\<close>

record 'c ranked =
  success :: bool
  primary :: "candidate option"
  alternatives :: "candidate list"
  rcontext :: "'c option"

text \<open>\<open>StrategyManager.registerStrategy\<close> and \<open>unregisterStrategy\<close> (lines 31-42); the
  argument's type makes it a \<open>BaseStrategy\<close>.\<close>

definition registerStrategy :: "'c strategy \<Rightarrow> 'c strategy list \<Rightarrow> 'c strategy list" where
  "registerStrategy s strategies = sort_key (\<lambda>a. - priority a) (strategies @ [s])"

definition unregisterStrategy :: "string \<Rightarrow> 'c strategy list \<Rightarrow> 'c strategy list" where
  "unregisterStrategy strategyName strategies = filter (\<lambda>s. name s \<noteq> strategyName) strategies"

text \<open>\<open>StrategyManager.hasRandomClasses\<close> (lines 94-107).  On an SVG element
  \<open>className\<close> is an object, which is truthy and has no \<open>split\<close>: the call throws.\<close>

definition randomPatterns :: "rx list" where
  "randomPatterns =
     [Seq (Lit ''__'') (Seq (Plus (Sym letters)) (Seq (Lit ''-'') (Plus (Sym alnumdash)))),
      Seq (Plus (Sym letters)) (Seq (Lit ''-'') (AtLeast 5 (Sym hexdigits))),
      Seq (Lit ''_'') (AtLeast 5 (Sym hexdigits))]"

definition hasRandomClasses :: "element \<Rightarrow> exn + bool" where
  "hasRandomClasses el =
     (case className (eprops el) of
        SVGAnimatedString b \<Rightarrow> Inl (Exn ''element.className.split is not a function'')
      | ClassString cn \<Rightarrow>
          if cn = '''' then Inr False
          else Inr (list_ex (\<lambda>cls. list_ex (\<lambda>pattern. rx_test pattern cls) randomPatterns)
                      (splitWs cn)))"

text \<open>
  The body of the loop over the strategies (lines 58-81): the candidate one strategy
  contributes, if any.  An exception of any of the three calls is caught and the
  strategy contributes nothing.
\<close>

definition tryStrategy :: "bool \<Rightarrow> element \<Rightarrow> 'c \<Rightarrow> 'c strategy \<Rightarrow> candidate option" where
  "tryStrategy hasRandom el c s =
     (case isApplicable s el c of
        Inl error \<Rightarrow> None
      | Inr applicable \<Rightarrow>
          if applicable then
            (case generate s el c of
               Inl error \<Rightarrow> None
             | Inr None \<Rightarrow> None
             | Inr (Some x) \<Rightarrow>
                 if x \<noteq> '''' then
                   (case getScore s el c of
                      Inl error \<Rightarrow> None
                    | Inr sc \<Rightarrow>
                        Some \<lparr>strategy = name s, xpath = x,
                              score = (if hasRandom \<and> name s = ''attribute'' then sc - 50 else sc),
                              cand_priority = priority s\<rparr>)
                 else None)
          else None)"

fun strategyLoop ::
  "bool \<Rightarrow> element \<Rightarrow> 'c \<Rightarrow> 'c strategy list \<Rightarrow> candidate list \<Rightarrow> candidate list" where
  "strategyLoop hasRandom el c [] results = results"
| "strategyLoop hasRandom el c (s # ss) results =
     strategyLoop hasRandom el c ss
       (case tryStrategy hasRandom el c s of None \<Rightarrow> results | Some r \<Rightarrow> results @ [r])"

text \<open>
  \<open>StrategyManager.generateXPath\<close> (lines 50-92).  \<open>c\<close> is the context that
  \<open>buildContext\<close> made.  \<open>Array.prototype.sort\<close> is stable, and the comparator orders by
  descending score.
\<close>

definition rank :: "candidate list \<Rightarrow> candidate list" where
  "rank results = sort_key (\<lambda>a. - score a) results"

definition managerGenerateXPath ::
  "'c strategy list \<Rightarrow> element \<Rightarrow> 'c \<Rightarrow> exn + 'c ranked" where
  "managerGenerateXPath strategies el c =
     (case hasRandomClasses el of
        Inl error \<Rightarrow> Inl error
      | Inr hasRandom \<Rightarrow>
          let results = rank (strategyLoop hasRandom el c strategies [])
          in Inr \<lparr>success = length results > 0,
                  primary = (case results of [] \<Rightarrow> None | r # _ \<Rightarrow> Some r),
                  alternatives = take 2 (drop 1 results),
                  rcontext = Some c\<rparr>)"

section \<open>The coordinator\<close>

text \<open>
  The three messages of a failed result: the invalid element (line 23), the failure after
  the strategies and the fallback (line 103), and the failure with the message of a caught
  exception (line 120).
\<close>

datatype err = InvalidElement | NoValidXPath | ExtractionFailed string

text \<open>The \<open>element\<close> field of a result.\<close>

record summary =
  sum_tagName :: string
  sum_text :: string
  sum_id :: string
  sum_className :: classval

text \<open>
  The result object of \<open>XPathGenerator.generateXPath\<close>: the manager's object extended
  (line 50 spreads it), or one of the literal objects of the other exits, in which a field
  that the literal does not have is \<open>None\<close>.  \<open>'a\<close> is the analysis.
\<close>

record ('c, 'a) generation = "'c ranked" +
  error :: "err option"
  element :: "summary option"
  analysis :: "'a option"
  timestamp :: int

text \<open>A cache entry, \<open>{data, timestamp}\<close>.\<close>

record ('c, 'a) entry =
  data :: "('c, 'a) generation"
  stored_at :: int

type_synonym ('c, 'a) cache = "(string \<times> ('c, 'a) entry) list"

text \<open>
  What the coordinator is given: \<open>ElementAnalyzer.analyze\<close>, which may throw, the
  registry of the strategy manager, \<open>StrategyManager.buildContext\<close> with the options and
  the analysis, \<open>generateCacheKey\<close>, and \<open>document.body\<close>.
\<close>

record ('c, 'a) env =
  analyze :: "element \<Rightarrow> exn + 'a"
  strategies :: "'c strategy list"
  buildContext :: "element \<Rightarrow> 'a \<Rightarrow> 'c"
  generateCacheKey :: "element \<Rightarrow> string"
  body :: "element option"

text \<open>
  The readings of \<open>Date.now()\<close> during one call: at the cache check (line 34), for the
  result's \<open>timestamp\<close>, for the stored entry (line 65) and in \<open>cleanupCache\<close> (line 213).
\<close>

record clock =
  t_check :: int
  t_result :: int
  t_store :: int
  t_cleanup :: int

definition cacheTimeout :: int where
  "cacheTimeout = 10000"

text \<open>\<open>XPathGenerator.cleanupCache\<close> (lines 212-219).\<close>

definition cleanupCache :: "int \<Rightarrow> ('c, 'a) cache \<Rightarrow> ('c, 'a) cache" where
  "cleanupCache now cache = filter (\<lambda>(key, v). \<not> (now - stored_at v > cacheTimeout)) cache"

text \<open>
  The argument of \<open>generateXPath\<close>: null, a node without \<open>tagName\<close>, an element, or an
  object that is no element and has the one property \<open>tagName\<close>, a string, such as
  \<open>{tagName: 'DIV'}\<close>.
\<close>

datatype jsval = Null | NoTagName | TagOnly string | Elem element

text \<open>
  \<open>XPathGenerator.generateCacheKey\<close> (lines 203-207) on such an object:
  \<open>ElementAnalyzer.getElementPath\<close> (element-analyzer.js, lines 257-268) returns, its loop
  running once with the index -1 of an object without \<open>parentElement\<close>; then
  \<open>hashAttributes\<close> (lines 270-285) begins with \<open>Array.from(element.attributes)\<close>, which
  throws this \<open>TypeError\<close> on the undefined property.
\<close>

definition notIterable :: exn where
  "notIterable = Exn ''undefined is not iterable''"

definition summarize :: "element \<Rightarrow> summary" where
  "summarize el =
     \<lparr>sum_tagName = toLowerCase (tagName (eprops el)),
      sum_text = getVisibleText el,
      sum_id = elemId (eprops el),
      sum_className = className (eprops el)\<rparr>"

definition message :: "exn \<Rightarrow> string" where
  "message e = (case e of Exn m \<Rightarrow> m)"

text \<open>
  The body of the \<open>try\<close> of \<open>generateXPath\<close> (lines 39-115).  \<open>fallback\<close> is the call
  \<open>this.generateFallbackXPath(element)\<close>, inside its own \<open>try\<close>.
\<close>

definition tryBody ::
  "(element \<Rightarrow> exn + string) \<Rightarrow> ('c, 'a) env \<Rightarrow> ('c, 'a) cache \<Rightarrow> clock \<Rightarrow> element \<Rightarrow>
     exn + ('c, 'a) generation \<times> ('c, 'a) cache" where
  "tryBody fallback env cache clk el =
     (case analyze env el of
        Inl e \<Rightarrow> Inl e
      | Inr an \<Rightarrow>
          (case managerGenerateXPath (strategies env) el (buildContext env el an) of
             Inl e \<Rightarrow> Inl e
           | Inr result \<Rightarrow>
               if success result then
                 let enhancedResult =
                       \<lparr>success = success result, primary = primary result,
                        alternatives = alternatives result, rcontext = rcontext result,
                        error = None, element = Some (summarize el),
                        analysis = Some an, timestamp = t_result clk\<rparr>;
                     cache1 = AList.update (generateCacheKey env el)
                                \<lparr>data = enhancedResult, stored_at = t_store clk\<rparr> cache
                 in Inr (enhancedResult, cleanupCache (t_cleanup clk) cache1)
               else
                 (let failed =
                        \<lparr>success = False, primary = None, alternatives = [], rcontext = None,
                         error = Some NoValidXPath, element = Some (summarize el),
                         analysis = Some an, timestamp = t_result clk\<rparr>
                  in case fallback el of
                       Inl fallbackError \<Rightarrow> Inr (failed, cache)
                     | Inr fallbackXPath \<Rightarrow>
                         if fallbackXPath \<noteq> '''' then
                           Inr (\<lparr>success = True,
                                 primary = Some \<lparr>strategy = ''fallback'', xpath = fallbackXPath,
                                                 score = 1, cand_priority = 0\<rparr>,
                                 alternatives = [], rcontext = None,
                                 error = None, element = Some (summarize el),
                                 analysis = Some an, timestamp = t_result clk\<rparr>, cache)
                         else Inr (failed, cache))))"

text \<open>
  \<open>XPathGenerator.generateXPath\<close> (lines 19-132) with the fallback constructor as an
  argument.  The result is the returned object and the cache after the call; \<open>Inl\<close> is an
  exception that reaches the caller, as the rejection of the promise that the \<open>async\<close>
  method returns.  The cache key is computed in line 32, before the \<open>try\<close> of line 38; on
  an element it is the key of the environment.
\<close>

definition generateXPathWith ::
  "(element \<Rightarrow> exn + string) \<Rightarrow> ('c, 'a) env \<Rightarrow> ('c, 'a) cache \<Rightarrow> clock \<Rightarrow> jsval \<Rightarrow>
     exn + ('c, 'a) generation \<times> ('c, 'a) cache" where
  "generateXPathWith fallback env cache clk v =
     (let invalid =
            \<lparr>success = False, primary = None, alternatives = [], rcontext = None,
             error = Some InvalidElement, element = None, analysis = None,
             timestamp = t_result clk\<rparr>
      in case v of
           Null \<Rightarrow> Inr (invalid, cache)
         | NoTagName \<Rightarrow> Inr (invalid, cache)
         | TagOnly tag \<Rightarrow>
             if tag = '''' then Inr (invalid, cache)
             else Inl notIterable
         | Elem el \<Rightarrow>
             if tagName (eprops el) = '''' then Inr (invalid, cache)
             else
               let cacheKey = generateCacheKey env el;
                   cached = map_of cache cacheKey;
                   miss =
                     (case tryBody fallback env cache clk el of
                        Inr r \<Rightarrow> Inr r
                      | Inl e \<Rightarrow>
                          Inr (\<lparr>success = False, primary = None, alternatives = [],
                                rcontext = None,
                                error = Some (ExtractionFailed (message e)),
                                element = Some (summarize el), analysis = None,
                                timestamp = t_result clk\<rparr>, cache))
               in (case cached of
                     None \<Rightarrow> miss
                   | Some c \<Rightarrow>
                       if t_check clk - stored_at c < cacheTimeout then Inr (data c, cache)
                       else miss))"

text \<open>The method as it is: the fallback is \<open>generateFallbackXPath\<close>, which returns.\<close>

definition generateXPath ::
  "('c, 'a) env \<Rightarrow> ('c, 'a) cache \<Rightarrow> clock \<Rightarrow> jsval \<Rightarrow>
     exn + ('c, 'a) generation \<times> ('c, 'a) cache" where
  "generateXPath env cache clk v =
     generateXPathWith (\<lambda>el. Inr (generateFallbackXPath (body env) el)) env cache clk v"

section \<open>Utils: generated names and stable attributes\<close>

text \<open>The character classes of the patterns; the first four are taken under the flag \<open>i\<close>.\<close>

definition digits :: "char list" where
  "digits = ''0123456789''"

definition alnum :: "char list" where
  "alnum = letters @ digits"

definition lowercase :: "char list" where
  "lowercase = ''abcdefghijklmnopqrstuvwxyz''"

definition uppercase :: "char list" where
  "uppercase = ''ABCDEFGHIJKLMNOPQRSTUVWXYZ''"

text \<open>A literal under the flag \<open>i\<close>: every letter in both cases.\<close>

definition bothCases :: "char \<Rightarrow> char list" where
  "bothCases c =
     (case map_of (zip lowercase uppercase) c of
        Some u \<Rightarrow> [c, u]
      | None \<Rightarrow> (case map_of (zip uppercase lowercase) c of Some l \<Rightarrow> [c, l] | None \<Rightarrow> [c]))"

fun LitI :: "string \<Rightarrow> rx" where
  "LitI [] = Eps"
| "LitI (c # cs) = Seq (Sym (bothCases c)) (LitI cs)"

text \<open>\<open>r{n}\<close>, \<open>r{0,n}\<close> and \<open>r{m,n}\<close>, and the concatenation of a list.\<close>

fun Exactly :: "nat \<Rightarrow> rx \<Rightarrow> rx" where
  "Exactly 0 r = Eps"
| "Exactly (Suc n) r = Seq r (Exactly n r)"

fun AtMost :: "nat \<Rightarrow> rx \<Rightarrow> rx" where
  "AtMost 0 r = Eps"
| "AtMost (Suc n) r = Alt Eps (Seq r (AtMost n r))"

definition Between :: "nat \<Rightarrow> nat \<Rightarrow> rx \<Rightarrow> rx" where
  "Between m n r = Seq (Exactly m r) (AtMost (n - m) r)"

fun seqs :: "rx list \<Rightarrow> rx" where
  "seqs [] = Eps"
| "seqs (r # rs) = Seq r (seqs rs)"

definition hex :: rx where
  "hex = Sym hexdigits"

text \<open>The pattern of a UUID, which three of the lists below share.\<close>

definition uuidPattern :: rx where
  "uuidPattern =
     seqs [Exactly 8 hex, Lit ''-'', Exactly 4 hex, Lit ''-'', Exactly 4 hex, Lit ''-'',
           Exactly 4 hex, Lit ''-'', Exactly 12 hex]"

text \<open>\<open>name.startsWith(prefix)\<close>\<close>

definition startsWith :: "string \<Rightarrow> string \<Rightarrow> bool" where
  "startsWith s prefix = (take (length prefix) s = prefix)"

text \<open>\<open>Utils.isRandomGeneratedValue\<close> (container-context-strategy.js, lines 413-444); the
  value is a string.\<close>

definition randomValuePatterns :: "rx list" where
  "randomValuePatterns =
     [Exactly 8 hex,
      AtLeast 6 hex,
      uuidPattern,
      seqs [Sym letters, Exactly 7 hex],
      seqs [Exactly 2 (Sym letters), Exactly 6 hex],
      Between 8 12 (Sym alnum),
      seqs [Plus (Sym letters), Lit ''-'', AtLeast 5 hex],
      seqs [Lit ''_'', AtLeast 5 hex],
      seqs [LitI ''react-'', Plus (Sym alnumdash)],
      seqs [LitI ''vue-'', Plus (Sym alnumdash)],
      seqs [LitI ''ng-'', Plus (Sym alnumdash)],
      seqs [LitI ''component-'', Plus (Sym alnumdash)],
      seqs [LitI ''auto-'', Plus (Sym alnumdash)],
      seqs [LitI ''gen-'', Plus (Sym alnumdash)]]"

definition isRandomGeneratedValue :: "string \<Rightarrow> bool" where
  "isRandomGeneratedValue v =
     (if v = '''' then False
      else list_ex (\<lambda>pattern. rx_test pattern (trim v)) randomValuePatterns)"

text \<open>\<open>Utils.isFrameworkAttribute\<close> (lines 357-406); the third parameter is not used.\<close>

definition semanticAttrsWithRandomValues :: "string list" where
  "semanticAttrsWithRandomValues =
     [''aria-labelledby'', ''aria-describedby'', ''aria-controls'', ''aria-owns'', ''for'',
      ''form'', ''list'', ''headers'']"

definition dynamicAttrPatterns :: "rx list" where
  "dynamicAttrPatterns =
     [seqs [LitI ''data-'', Plus (Sym letters), Lit ''-'', AtLeast 6 hex],
      seqs [Plus (Sym letters), Lit ''-'', Exactly 8 hex],
      seqs [LitI ''data-styled-'', Plus (Sym alnum)],
      seqs [LitI ''data-emotion-'', Plus (Sym alnum)],
      seqs [LitI ''data-css-'', Plus (Sym alnum)]]"

definition isFrameworkAttribute :: "string \<Rightarrow> string \<Rightarrow> bool" where
  "isFrameworkAttribute attrName attrValue =
     (if rx_test (seqs [LitI ''data-v-'', Exactly 8 hex]) attrName then True
      else if rx_test (seqs [LitI ''data-react'', Star Any]) attrName then True
      else if rx_test (seqs [LitI ''_ng'', Alt (LitI ''content'') (LitI ''host''), Lit ''-'',
                             Plus (Sym alnumdash)]) attrName then True
      else if isRandomGeneratedValue attrValue \<and> attrName \<in> set semanticAttrsWithRandomValues
        then True
      else list_ex (\<lambda>pattern. rx_test pattern attrName) dynamicAttrPatterns)"

text \<open>\<open>Utils.isStableDataAttribute\<close> (lines 493-527).\<close>

definition stableDataAttrs :: "string list" where
  "stableDataAttrs =
     [''data-testid'', ''data-test'', ''data-cy'', ''data-qa'', ''data-automation'',
      ''data-role'', ''data-action'', ''data-target'', ''data-toggle'', ''data-dismiss'',
      ''data-placement'', ''data-content'', ''data-original-title'']"

definition hashPatterns :: "rx list" where
  "hashPatterns =
     [AtLeast 6 hex,
      seqs [Plus (Sym alnum), Lit ''-'', AtLeast 5 hex],
      Plus (Sym digits)]"

definition isStableDataAttribute :: "string \<Rightarrow> string \<Rightarrow> bool" where
  "isStableDataAttribute attrName attrValue =
     (if \<not> startsWith attrName ''data-'' then False
      else if attrName \<in> set stableDataAttrs then True
      else
        let looksLikeHash = list_ex (\<lambda>pattern. rx_test pattern attrValue) hashPatterns
        in \<not> looksLikeHash \<and> length attrValue > 0)"

text \<open>
  \<open>Utils.getStableAttributes\<close> (lines 451-485): the loop over \<open>element.attributes\<close>, in
  which \<open>unshift\<close> puts an attribute of high priority in front and \<open>push\<close> puts any other
  at the end.  The framework type that the function computes first is not read.
\<close>

datatype attrPriority = High | Medium | Low

record stableAttr =
  attr_name :: string
  attr_value :: string
  attr_priority :: attrPriority

definition stableAttrsStep :: "string \<times> string \<Rightarrow> stableAttr list \<Rightarrow> stableAttr list" where
  "stableAttrsStep attr stableAttrs =
     (let n = fst attr; v = snd attr
      in if isFrameworkAttribute n v then stableAttrs
         else if v = '''' \<and> n \<notin> set [''checked'', ''selected'', ''disabled'', ''readonly'']
           then stableAttrs
         else if n \<in> set [''id'', ''name'', ''title'', ''alt'', ''role'', ''type'']
           then \<lparr>attr_name = n, attr_value = v, attr_priority = High\<rparr> # stableAttrs
         else if (startsWith n ''aria-'' \<or> n \<in> set [''placeholder'', ''value'']) \<and>
                 \<not> isRandomGeneratedValue v
           then stableAttrs @ [\<lparr>attr_name = n, attr_value = v, attr_priority = Medium\<rparr>]
         else if \<not> startsWith n ''data-'' \<or> isStableDataAttribute n v
           then stableAttrs @ [\<lparr>attr_name = n, attr_value = v, attr_priority = Low\<rparr>]
         else stableAttrs)"

definition getStableAttributes :: "element \<Rightarrow> stableAttr list" where
  "getStableAttributes el = fold stableAttrsStep (attributes (eprops el)) []"

text \<open>\<open>Utils.filterFrameworkGeneratedNames\<close> (lines 581-660), on an array of names.\<close>

datatype nameType = ClassName | IdName

definition dynamicPatterns :: "rx list" where
  "dynamicPatterns =
     [AtLeast 6 hex,
      uuidPattern,
      Plus (Sym digits),
      seqs [Plus (Sym alnum), Lit ''-'', AtLeast 5 hex],
      seqs [Plus (Sym letters), Lit ''_'', AtLeast 5 hex],
      seqs [Lit ''_'', AtLeast 5 hex],
      seqs [Between 4 8 hex, Lit ''-'', Between 4 8 hex],
      seqs [Between 1 3 (Sym letters), AtLeast 6 hex],
      seqs [LitI ''css-'', Plus (Sym alnum)],
      seqs [LitI ''sc-'', Plus (Sym alnum)],
      seqs [LitI ''jsx-'', Plus (Sym alnum)],
      seqs [Star Any, LitI ''emotion-'', Plus (Sym alnum)],
      seqs [Lit ''__'', Plus (Sym alnumdash)],
      seqs [LitI ''react-'', Plus (Sym alnumdash)],
      seqs [Plus (Sym letters), Lit ''-'', AtLeast 6 (Sym alnum), Lit ''-'', AtLeast 6 (Sym alnum)],
      seqs [LitI ''data-v-'', Exactly 8 hex],
      seqs [LitI ''vue-'', Plus (Sym alnumdash)],
      seqs [LitI ''ng-'', Plus (Sym alnumdash)],
      seqs [LitI ''_ngcontent-'', Plus (Sym alnumdash)],
      seqs [LitI ''_nghost-'', Plus (Sym alnumdash)],
      seqs [Lit ''MuiBox-root-'', Plus (Sym digits)],
      seqs [Lit ''makeStyles-'', Plus (Sym lowercase), Lit ''-'', Plus (Sym digits)],
      seqs [LitI ''jss'', Plus (Sym digits)],
      seqs [LitI ''ant-'', Plus (Sym letters), Lit ''-'', AtLeast 6 hex],
      seqs [Plus (Sym letters), Lit ''-['', Plus (Sym (hexdigits @ ''#%'')), Lit '']''],
      seqs [Sym letters, Star (Sym letters), Lit ''__'', Plus (Sym alnumdash)],
      seqs [Plus (Sym letters), Sym letters, Star (Sym letters), Lit ''_'', AtLeast 5 hex],
      seqs [Plus (Sym letters), Lit ''-'', Plus (Sym letters), Lit ''-'', AtLeast 5 hex],
      seqs [Sym letters, Exactly 7 hex],
      seqs [Exactly 2 (Sym letters), Exactly 6 hex],
      Exactly 8 hex,
      Between 8 12 (Sym alnum)]"

definition idPatterns :: "rx list" where
  "idPatterns =
     [seqs [LitI ''react-'', Star Any],
      seqs [LitI ''vue-'', Star Any],
      seqs [LitI ''ng-'', Star Any],
      seqs [LitI ''root-'', Plus (Sym digits)],
      seqs [LitI ''app-'', Plus (Sym alnumdash)],
      seqs [LitI ''component-'', Plus (Sym alnumdash)]]"

definition filterFrameworkGeneratedNames :: "string list \<Rightarrow> nameType \<Rightarrow> string list" where
  "filterFrameworkGeneratedNames names type =
     filter (\<lambda>n.
        if n = '''' \<or> length n < 2 then False
        else
          let isDynamic = list_ex (\<lambda>pattern. rx_test pattern n) dynamicPatterns
          in if type = IdName then
               (let isFrameworkId = list_ex (\<lambda>pattern. rx_test pattern n) idPatterns
                in \<not> isDynamic \<and> \<not> isFrameworkId)
             else \<not> isDynamic) names"

text \<open>
  \<open>Utils.getFilteredClasses\<close> (lines 667-675) on \<open>element.className\<close>: the object of an
  SVG element is truthy, is no array and has no \<open>split\<close>, so the call throws.
\<close>

definition getFilteredClasses :: "classval \<Rightarrow> exn + string list" where
  "getFilteredClasses cn =
     (case cn of
        SVGAnimatedString b \<Rightarrow> Inl (Exn ''className.split is not a function'')
      | ClassString s \<Rightarrow>
          if s = '''' then Inr []
          else Inr (filterFrameworkGeneratedNames
                      (filter (\<lambda>cls. length cls > 0) (splitWs s)) ClassName))"

text \<open>\<open>Utils.getValidId\<close> and \<open>Utils.isValidId\<close> (lines 682-695).\<close>

definition getValidId :: "string \<Rightarrow> string option" where
  "getValidId i =
     (if i = '''' then None
      else if length (filterFrameworkGeneratedNames [i] IdName) > 0 then Some i else None)"

definition isValidId :: "string \<Rightarrow> bool" where
  "isValidId i = (getValidId i \<noteq> None)"

section \<open>The text strategy\<close>

text \<open>\<open>s.split("'")\<close>, for any separating character.\<close>

fun splitOn :: "char \<Rightarrow> string \<Rightarrow> string list" where
  "splitOn c [] = [[]]"
| "splitOn c (x # xs) =
     (if x = c then [] # splitOn c xs
      else (case splitOn c xs of [] \<Rightarrow> [[x]] | t # ts \<Rightarrow> (x # t) # ts))"

definition squote :: char where
  "squote = CHR 0x27"

definition dquote :: char where
  "dquote = CHR 0x22"

text \<open>\<open>Utils.escapeXPath\<close> (container-context-strategy.js, lines 246-267).\<close>

definition escapeXPath :: "string \<Rightarrow> string" where
  "escapeXPath text =
     (if text = '''' then [squote, squote]
      else if squote \<in> set text \<and> dquote \<notin> set text then [dquote] @ text @ [dquote]
      else if dquote \<in> set text \<and> squote \<notin> set text then [squote] @ text @ [squote]
      else if squote \<in> set text \<and> dquote \<in> set text then
        (let parts = map (\<lambda>part. [squote] @ part @ [squote]) (splitOn squote text)
         in ''concat('' @ join ('', '' @ [dquote, squote, dquote] @ '' , '') parts @ '')'')
      else [squote] @ text @ [squote])"

text \<open>\<open>text.replace(/\s+/g, ' ')\<close>.\<close>

fun collapseWs :: "string \<Rightarrow> string" where
  "collapseWs [] = []"
| "collapseWs (c # cs) =
     (if is_space c then
        (if startsWithSpace cs then collapseWs cs else CHR '' '' # collapseWs cs)
      else c # collapseWs cs)"

text \<open>
  \<open>element.closest('button')\<close>: the nearest of the element and its ancestors that the
  selector matches, which is one whose lower-cased tag name is \<open>button\<close>.
\<close>

function closestButton :: "element \<Rightarrow> element option" where
  "closestButton el =
     (if toLowerCase (tagName (eprops el)) = ''button'' then Some el
      else (case parentElement el of None \<Rightarrow> None | Some p \<Rightarrow> closestButton p))"
  by pat_completeness auto
termination
  by (relation "measure (\<lambda>el. length (ancestors el))")
     (auto simp: parentElement_def split: list.splits)

declare closestButton.simps [simp del]

text \<open>\<open>TextStrategy.isButtonLikeElement\<close> (part_001, lines 77-87).\<close>

definition isButtonLikeElement :: "element \<Rightarrow> bool" where
  "isButtonLikeElement el =
     (let tag = toLowerCase (tagName (eprops el));
          type = type_prop (eprops el);
          r = role (eprops el)
      in tag = ''button'' \<or>
         (tag = ''input'' \<and> type \<in> set [Some ''button'', Some ''submit'', Some ''reset'']) \<or>
         r = Some ''button'' \<or>
         ''btn'' \<in> set (classList (eprops el)) \<or>
         ''button'' \<in> set (classList (eprops el)))"

text \<open>The object that \<open>detectDuplicateText\<close> returns.\<close>

record duplicateInfo =
  hasDuplicates :: bool
  count :: nat
  elements :: "element list"
  targetIndex :: int

text \<open>
  \<open>detectDuplicateText\<close> and \<open>generateContextAwareXPath\<close> call four methods of \<open>this\<close>
  that neither \<open>TextStrategy\<close> (part_001, lines 5-186) nor \<open>BaseStrategy\<close> defines, and that
  no other file of the repository adds.  Each of these properties is undefined, so each
  call throws a \<open>TypeError\<close>.
\<close>

definition notAFunction :: "string \<Rightarrow> exn" where
  "notAFunction m = Exn (''this.'' @ m @ '' is not a function'')"

definition getElementIndexInDuplicates :: "element \<Rightarrow> element list \<Rightarrow> exn + int" where
  "getElementIndexInDuplicates targetElement duplicates =
     Inl (notAFunction ''getElementIndexInDuplicates'')"

definition generateContainerBasedXPath ::
  "element \<Rightarrow> string \<Rightarrow> string \<Rightarrow> string \<Rightarrow> exn + string option" where
  "generateContainerBasedXPath el text escapedText tag =
     Inl (notAFunction ''generateContainerBasedXPath'')"

definition generateAnchorBasedXPath ::
  "element \<Rightarrow> string \<Rightarrow> string \<Rightarrow> string \<Rightarrow> exn + string option" where
  "generateAnchorBasedXPath el text escapedText tag =
     Inl (notAFunction ''generateAnchorBasedXPath'')"

definition generateIndexBasedXPath ::
  "element \<Rightarrow> string \<Rightarrow> string \<Rightarrow> string \<Rightarrow> duplicateInfo \<Rightarrow> exn + string option" where
  "generateIndexBasedXPath el text escapedText tag dupInfo =
     Inl (notAFunction ''generateIndexBasedXPath'')"

text \<open>The expression that \<open>detectDuplicateText\<close> evaluates (line 124).\<close>

definition duplicateQuery :: "string \<Rightarrow> string" where
  "duplicateQuery text =
     ''//*[text()='' @ escapeXPath text @ '' or contains(text(), '' @ escapeXPath text @ '')]''"

text \<open>\<open>TextStrategy.detectDuplicateText\<close> (lines 122-152); the \<open>catch\<close> covers the
  evaluation and the call of \<open>getElementIndexInDuplicates\<close>.\<close>

definition detectDuplicateText ::
  "(string \<Rightarrow> exn + element list) \<Rightarrow> string \<Rightarrow> element \<Rightarrow> duplicateInfo" where
  "detectDuplicateText evaluate text targetElement =
     (let none = \<lparr>hasDuplicates = False, count = 1, elements = [], targetIndex = 0\<rparr>
      in case evaluate (duplicateQuery text) of
           Inl ex \<Rightarrow> none
         | Inr result \<Rightarrow>
             let duplicates = filter (\<lambda>e. e \<noteq> targetElement) result
             in (case getElementIndexInDuplicates targetElement duplicates of
                   Inl ex \<Rightarrow> none
                 | Inr k \<Rightarrow>
                     \<lparr>hasDuplicates = length duplicates > 0,
                      count = length duplicates + 1,
                      elements = duplicates,
                      targetIndex = k\<rparr>))"

text \<open>The test \<open>xpath && this.validateXPath(xpath, element)\<close> on a string or null.\<close>

definition accepted ::
  "(string \<Rightarrow> exn + element list) \<Rightarrow> string option \<Rightarrow> element \<Rightarrow> bool" where
  "accepted evaluate x el =
     (case x of None \<Rightarrow> False | Some s \<Rightarrow> s \<noteq> [] \<and> validateXPath evaluate s el)"

text \<open>\<open>TextStrategy.generateContextAwareXPath\<close> (lines 162-185).\<close>

definition generateContextAwareXPath ::
  "(string \<Rightarrow> exn + element list) \<Rightarrow> element \<Rightarrow> string \<Rightarrow> duplicateInfo \<Rightarrow>
     exn + string option" where
  "generateContextAwareXPath evaluate el text dupInfo =
     (let escapedText = escapeXPath text;
          tag = toLowerCase (tagName (eprops el))
      in case generateContainerBasedXPath el text escapedText tag of
           Inl e \<Rightarrow> Inl e
         | Inr containerXPath \<Rightarrow>
             if accepted evaluate containerXPath el
             then Inr containerXPath
             else
               (case generateAnchorBasedXPath el text escapedText tag of
                  Inl e \<Rightarrow> Inl e
                | Inr anchorXPath \<Rightarrow>
                    if accepted evaluate anchorXPath el
                    then Inr anchorXPath
                    else
                      (case generateIndexBasedXPath el text escapedText tag dupInfo of
                         Inl e \<Rightarrow> Inl e
                       | Inr indexXPath \<Rightarrow>
                           if accepted evaluate indexXPath el
                           then Inr indexXPath
                           else Inr None)))"

text \<open>The first expression of a list that validates, as in the loop of lines 68-72.\<close>

fun firstValid :: "(string \<Rightarrow> exn + element list) \<Rightarrow> element \<Rightarrow> string list \<Rightarrow> string option" where
  "firstValid evaluate el [] = None"
| "firstValid evaluate el (x # xs) =
     (if validateXPath evaluate x el then Some x else firstValid evaluate el xs)"

text \<open>\<open>TextStrategy.generate\<close> (lines 15-75).\<close>

definition textGenerate ::
  "(string \<Rightarrow> exn + element list) \<Rightarrow> element \<Rightarrow> exn + string option" where
  "textGenerate evaluate el =
     (let text = trim (getVisibleText el)
      in if text = '''' then Inr None
         else
           let dupInfo = detectDuplicateText evaluate text el
           in if hasDuplicates dupInfo
              then generateContextAwareXPath evaluate el text dupInfo
              else
                let tag = toLowerCase (tagName (eprops el));
                    escapedText = escapeXPath text;
                    normalized = escapeXPath (collapseWs text);
                    s1 = (if tag = ''span'' then
                            (case closestButton el of
                               None \<Rightarrow> []
                             | Some buttonElement \<Rightarrow>
                                 if trim (getVisibleText buttonElement) = text then
                                   [''//button[text()='' @ escapedText @ '']'',
                                    ''//button[contains(text(), '' @ escapedText @ '')]'',
                                    ''//button[normalize-space(text())='' @ normalized @ '']'']
                                 else [])
                          else []);
                    s2 = s1 @
                         [''//'' @ tag @ ''[text()='' @ escapedText @ '']'',
                          ''//'' @ tag @ ''[contains(text(), '' @ escapedText @ '')]'',
                          ''//'' @ tag @ ''[normalize-space(text())='' @ normalized @ '']'',
                          ''//*[text()='' @ escapedText @ '']'',
                          ''//*[contains(text(), '' @ escapedText @ '')]''];
                    s3 = (if isButtonLikeElement el then
                            [''//button[text()='' @ escapedText @ '']'',
                             ''//input[@type='button' and @value='' @ escapedText @ '']'',
                             ''//input[@type='submit' and @value='' @ escapedText @ '']'',
                             ''//*[@role='button' and text()='' @ escapedText @ '']''] @ s2
                          else s2)
                in Inr (firstValid evaluate el s3))"

section \<open>The attribute strategy\<close>

text \<open>A value between single quotes, and the expression \<open>//sel[@name='value']\<close>, as the
  template literals of the strategy write them.\<close>

definition quoted :: "string \<Rightarrow> string" where
  "quoted v = [squote] @ v @ [squote]"

definition attrEq :: "string \<Rightarrow> string \<Rightarrow> string \<Rightarrow> string" where
  "attrEq sel n v = ''//'' @ sel @ ''[@'' @ n @ ''='' @ quoted v @ '']''"

text \<open>\<open>AttributeStrategy.isApplicable\<close> (part_003, lines 10-20).\<close>

definition attributeIsApplicable :: "element \<Rightarrow> bool" where
  "attributeIsApplicable el = (length (getStableAttributes el) > 0)"

text \<open>
  The expressions from the class names (lines 62-77).  An empty string is falsy; the
  object of an SVG element is truthy, and \<open>getFilteredClasses\<close> throws on it.
\<close>

definition classFormulations :: "classval \<Rightarrow> exn + string list" where
  "classFormulations cn =
     (if cn = ClassString '''' then Inr []
      else
        (case getFilteredClasses cn of
           Inl e \<Rightarrow> Inl e
         | Inr classes \<Rightarrow>
             Inr (if length classes > 0 then
                    concat (map (\<lambda>cls. [''//*[@class='' @ quoted cls @ '']'',
                                         ''//*[contains(@class, '' @ quoted cls @ '')]''])
                              (take 2 classes)) @
                    (if length classes > 1
                     then [''//*[@class='' @ quoted (join '' '' (take 2 classes)) @ '']'']
                     else [])
                  else [])))"

text \<open>The array \<open>strategies\<close> that \<open>AttributeStrategy.generate\<close> fills (lines 26-86).\<close>

definition attributeFormulations :: "element \<Rightarrow> exn + string list" where
  "attributeFormulations el =
     (let stableAttrs = getStableAttributes el;
          tag = toLowerCase (tagName (eprops el));
          highPriorityAttrs = filter (\<lambda>a. attr_priority a = High) stableAttrs;
          mediumPriorityAttrs = filter (\<lambda>a. attr_priority a = Medium) stableAttrs;
          lowPriorityAttrs = filter (\<lambda>a. attr_priority a = Low) stableAttrs;
          s1 = (case find (\<lambda>a. attr_name a = ''id'') highPriorityAttrs of
                  None \<Rightarrow> []
                | Some idAttr \<Rightarrow>
                    if isValidId (attr_value idAttr)
                    then [attrEq ''*'' ''id'' (attr_value idAttr),
                          attrEq tag ''id'' (attr_value idAttr)]
                    else []);
          s2 = s1 @
               (case find (\<lambda>a. attr_name a = ''name'') highPriorityAttrs of
                  None \<Rightarrow> []
                | Some nameAttr \<Rightarrow>
                    [attrEq ''*'' ''name'' (attr_value nameAttr),
                     attrEq tag ''name'' (attr_value nameAttr)]);
          s3 = s2 @
               concat (map (\<lambda>a. if attr_name a \<noteq> ''id'' \<and> attr_name a \<noteq> ''name''
                                 then [attrEq ''*'' (attr_name a) (attr_value a),
                                       attrEq tag (attr_name a) (attr_value a)]
                                 else []) highPriorityAttrs);
          s4 = s3 @
               map (\<lambda>a. attrEq ''*'' (attr_name a) (attr_value a)) (take 2 mediumPriorityAttrs)
      in case classFormulations (className (eprops el)) of
           Inl e \<Rightarrow> Inl e
         | Inr s5 \<Rightarrow>
             let stableDataAttrs =
                   filter (\<lambda>a. startsWith (attr_name a) ''data-'' \<and>
                                isStableDataAttribute (attr_name a) (attr_value a))
                     lowPriorityAttrs
             in Inr (s4 @ s5 @
                     map (\<lambda>a. attrEq ''*'' (attr_name a) (attr_value a))
                       (take 2 stableDataAttrs)))"

text \<open>\<open>AttributeStrategy.generate\<close> (lines 22-96): the first expression that validates.\<close>

definition attributeGenerate ::
  "(string \<Rightarrow> exn + element list) \<Rightarrow> element \<Rightarrow> exn + string option" where
  "attributeGenerate evaluate el =
     (case attributeFormulations el of
        Inl e \<Rightarrow> Inl e
      | Inr ss \<Rightarrow> Inr (firstValid evaluate el ss))"

text \<open>A property that is a string or undefined, as a condition.\<close>

definition truthy :: "string option \<Rightarrow> bool" where
  "truthy x = (case x of None \<Rightarrow> False | Some s \<Rightarrow> s \<noteq> '''')"

text \<open>\<open>AttributeStrategy.getScore\<close> (lines 106-126), for the priority of the strategy.\<close>

definition attributeGetScore :: "int \<Rightarrow> element \<Rightarrow> exn + int" where
  "attributeGetScore prio el =
     (let s1 = prio + (if elemId (eprops el) \<noteq> '''' \<and> isValidId (elemId (eprops el))
                       then 50 else 0);
          s2 = s1 + (if truthy (nameProp (eprops el)) then 30 else 0)
      in case getFilteredClasses (className (eprops el)) of
           Inl e \<Rightarrow> Inl e
         | Inr classes \<Rightarrow>
             Inr (if length classes > 0
                  then s2 + min (int (length classes) * 10) 30 else s2))"

text \<open>\<open>new AttributeStrategy()\<close>, over a document given by what \<open>document.evaluate\<close>
  returns on it.\<close>

definition attributeStrategy :: "(string \<Rightarrow> exn + element list) \<Rightarrow> 'c strategy" where
  "attributeStrategy evaluate =
     \<lparr>name = ''attribute'', priority = 100,
      isApplicable = (\<lambda>el c. Inr (attributeIsApplicable el)),
      generate = (\<lambda>el c. attributeGenerate evaluate el),
      getScore = (\<lambda>el c. attributeGetScore 100 el)\<rparr>"

text \<open>\<open>TextStrategy.isApplicable\<close>, \<open>isLinkElement\<close> and \<open>getScore\<close> (part_001, lines 10-13
  and 89-114), and \<open>new TextStrategy()\<close>.\<close>

definition textIsApplicable :: "element \<Rightarrow> bool" where
  "textIsApplicable el =
     (let text = getVisibleText el in length text > 0 \<and> length text \<le> 50)"

definition isLinkElement :: "element \<Rightarrow> bool" where
  "isLinkElement el = (toLowerCase (tagName (eprops el)) = ''a'' \<and> truthy (href (eprops el)))"

definition textGetScore ::
  "int \<Rightarrow> (string \<Rightarrow> exn + element list) \<Rightarrow> element \<Rightarrow> int" where
  "textGetScore prio evaluate el =
     (let text = getVisibleText el;
          s1 = prio + 100 +
               (if length text \<le> 10 then 50
                else if length text \<le> 20 then 30
                else if length text \<le> 30 then 5 else 0);
          s2 = s1 + (if isButtonLikeElement el then 50 else 0);
          s3 = s2 + (if isLinkElement el then 30 else 0)
      in if length text \<le> 15 \<and> \<not> hasDuplicates (detectDuplicateText evaluate text el)
         then s3 + 100 else s3)"

definition textStrategy ::
  "(string \<Rightarrow> exn + element list) \<Rightarrow> 'c strategy" where
  "textStrategy evaluate =
     \<lparr>name = ''text'', priority = 110,
      isApplicable = (\<lambda>el c. Inr (textIsApplicable el)),
      generate = (\<lambda>el c. textGenerate evaluate el),
      getScore = (\<lambda>el c. Inr (textGetScore 110 evaluate el))\<rparr>"

section \<open>Notions used in the statements\<close>

text \<open>The element and its ancestors, nearest first, by repeated \<open>parentElement\<close>.\<close>

function ancestorChain :: "element \<Rightarrow> element list" where
  "ancestorChain el =
     el # (case parentElement el of None \<Rightarrow> [] | Some p \<Rightarrow> ancestorChain p)"
  by pat_completeness auto
termination
  by (relation "measure (\<lambda>el. length (ancestors el))")
     (auto simp: parentElement_def split: list.splits)

declare ancestorChain.simps [simp del]

text \<open>The two kinds of segment of the fallback expression.\<close>

definition indexSegment :: "element \<Rightarrow> string" where
  "indexSegment e =
     toLowerCase (tagName (eprops e)) @ ''['' @ digits_of (getElementIndex e) @ '']''"

definition idSegment :: "element \<Rightarrow> string" where
  "idSegment e =
     ''//'' @ toLowerCase (tagName (eprops e)) @ ''[@id='' @ [squote] @ elemId (eprops e) @
     [squote] @ '']''"

text \<open>
  The segments for a chain of elements that starts at the target, outermost segment
  first: nothing from \<open>document.body\<close> on, an id segment for the first element with a
  non-empty id and nothing above it, an index segment for every other element.
\<close>

fun segments :: "element option \<Rightarrow> element list \<Rightarrow> string list" where
  "segments b [] = []"
| "segments b (e # es) =
     (if Some e = b then []
      else if elemId (eprops e) \<noteq> '''' then [idSegment e]
      else segments b es @ [indexSegment e])"

text \<open>The contents of the text nodes among some child nodes.\<close>

definition directTexts :: "node list \<Rightarrow> string list" where
  "directTexts ns = [t. TextNode t \<leftarrow> ns]"

text \<open>
  A cache as the coordinator builds it: every stored result is a successful one without
  an error.
\<close>

definition cacheOK :: "('c, 'a) cache \<Rightarrow> bool" where
  "cacheOK cache = list_all (\<lambda>(key, v). success (data v) \<and> error (data v) = None) cache"

text \<open>The cache has no entry for the key that is younger than the timeout.\<close>

definition cacheMiss :: "('c, 'a) cache \<Rightarrow> string \<Rightarrow> int \<Rightarrow> bool" where
  "cacheMiss cache key now =
     (case map_of cache key of None \<Rightarrow> True | Some c \<Rightarrow> \<not> (now - stored_at c < cacheTimeout))"

text \<open>The tokens of the element's class attribute.\<close>

definition classTokens :: "element \<Rightarrow> string list" where
  "classTokens el =
     (case className (eprops el) of
        ClassString cn \<Rightarrow> splitWs cn
      | SVGAnimatedString baseVal \<Rightarrow> splitWs baseVal)"

text \<open>The candidates of a result of the manager, the primary one first.\<close>

definition candidates :: "('c, 'z) ranked_scheme \<Rightarrow> candidate list" where
  "candidates r = (case primary r of None \<Rightarrow> [] | Some p \<Rightarrow> [p]) @ alternatives r"

section \<open>Example documents\<close>

definition visible :: css where
  "visible = \<lparr>display = ''block'', visibility = ''visible'', opacity = ''1''\<rparr>"

definition plain :: "string \<Rightarrow> props" where
  "plain tag =
     \<lparr>tagName = tag, elemId = '''', className = ClassString '''', classList = [],
      attributes = [], role = None, type_prop = None, nameProp = None, href = None,
      style = visible, width = 100, height = 20\<rparr>"

definition enter :: "element \<Rightarrow> nat \<Rightarrow> element" where
  "enter e i = (case childAt e i of None \<Rightarrow> e | Some c \<Rightarrow> c)"

text \<open>\<open><html><head/><body><div><span/></div></body></html>\<close>\<close>

definition docA :: element where
  "docA =
     \<lparr>eprops = plain ''HTML'',
      childNodes =
        [ElemNode (plain ''HEAD'') [],
         ElemNode (plain ''BODY'') [ElemNode (plain ''DIV'') [ElemNode (plain ''SPAN'') []]]],
      ancestors = []\<rparr>"

definition bodyA :: element where
  "bodyA = enter docA 1"

definition spanA :: element where
  "spanA = enter (enter bodyA 0) 0"

text \<open>\<open><html><head/><body><input name="q"><input name="q"></body></html>\<close>\<close>

definition inputQ :: props where
  "inputQ =
     (plain ''INPUT'')\<lparr>attributes := [(''name'', ''q'')], type_prop := Some ''text'',
                       nameProp := Some ''q''\<rparr>"

definition docB :: element where
  "docB =
     \<lparr>eprops = plain ''HTML'',
      childNodes =
        [ElemNode (plain ''HEAD'') [],
         ElemNode (plain ''BODY'') [ElemNode inputQ [], ElemNode inputQ []]],
      ancestors = []\<rparr>"

definition bodyB :: element where
  "bodyB = enter docB 1"

definition input1 :: element where
  "input1 = enter bodyB 0"

definition input2 :: element where
  "input2 = enter bodyB 1"

text \<open>
  \<open><html><head/><body><svg class="icon"/><p>a<b>x</b>b</p><i>x</i></body></html>\<close>,
  where the \<open>i\<close> element has an empty bounding box.
\<close>

definition docE :: element where
  "docE =
     \<lparr>eprops = plain ''HTML'',
      childNodes =
        [ElemNode (plain ''HEAD'') [],
         ElemNode (plain ''BODY'')
           [ElemNode ((plain ''svg'')\<lparr>className := SVGAnimatedString ''icon'',
                                       classList := [''icon''],
                                       attributes := [(''class'', ''icon'')]\<rparr>) [],
            ElemNode (plain ''P'') [TextNode ''a'', ElemNode (plain ''B'') [TextNode ''x''],
                                    TextNode ''b''],
            ElemNode ((plain ''I'')\<lparr>width := 0, height := 0\<rparr>) [TextNode ''x'']]],
      ancestors = []\<rparr>"

definition bodyE :: element where
  "bodyE = enter docE 1"

definition svgE :: element where
  "svgE = enter bodyE 0"

definition parE :: element where
  "parE = enter bodyE 1"

definition emptyBox :: element where
  "emptyBox = enter bodyE 2"

text \<open>
  The expressions \<open>//*[@name='q']\<close> and \<open>//input[@name='q']\<close>, and what
  \<open>document.evaluate\<close> gives on the document with the two inputs: both expressions match
  both inputs, in document order; any other expression is taken to match nothing.
\<close>

definition nameQ :: string where
  "nameQ = ''//*[@name='' @ [squote] @ ''q'' @ [squote] @ '']''"

definition inputNameQ :: string where
  "inputNameQ = ''//input[@name='' @ [squote] @ ''q'' @ [squote] @ '']''"

definition evaluateB :: "string \<Rightarrow> exn + element list" where
  "evaluateB x = (if x = nameQ \<or> x = inputNameQ then Inr [input1, input2] else Inr [])"

text \<open>
  \<open><html><head/><body><div id="a304c4ac"><span/></div></body></html>\<close>
\<close>

definition docF :: element where
  "docF =
     \<lparr>eprops = plain ''HTML'',
      childNodes =
        [ElemNode (plain ''HEAD'') [],
         ElemNode (plain ''BODY'')
           [ElemNode ((plain ''DIV'')\<lparr>elemId := ''a304c4ac'',
                                       attributes := [(''id'', ''a304c4ac'')]\<rparr>)
              [ElemNode (plain ''SPAN'') []]]],
      ancestors = []\<rparr>"

definition bodyF :: element where
  "bodyF = enter docF 1"

definition divF :: element where
  "divF = enter bodyF 0"

definition spanF :: element where
  "spanF = enter divF 0"






text \<open>A strategy that throws, and one that is never applicable.\<close>

definition throwing :: "unit strategy" where
  "throwing =
     \<lparr>name = ''text'', priority = 110,
      isApplicable = (\<lambda>el c. Inl (Exn ''boom'')),
      generate = (\<lambda>el c. Inr None),
      getScore = (\<lambda>el c. Inr 210)\<rparr>"

definition fixed :: "string \<Rightarrow> int \<Rightarrow> string \<Rightarrow> int \<Rightarrow> unit strategy" where
  "fixed n p x sc =
     \<lparr>name = n, priority = p,
      isApplicable = (\<lambda>el c. Inr True),
      generate = (\<lambda>el c. Inr (Some x)),
      getScore = (\<lambda>el c. Inr sc)\<rparr>"

definition envOf :: "unit strategy list \<Rightarrow> element \<Rightarrow> (unit, unit) env" where
  "envOf ss b =
     \<lparr>analyze = (\<lambda>el. Inr ()), strategies = ss, buildContext = (\<lambda>el an. ()),
      generateCacheKey = (\<lambda>el. ''key''), body = Some b\<rparr>"

definition at :: "int \<Rightarrow> clock" where
  "at t = \<lparr>t_check = t, t_result = t, t_store = t, t_cleanup = t\<rparr>"

text \<open>
  \<open><html><head/><body><span>Active</span><span>Active</span><span>Active</span></body></html>\<close>
\<close>

definition docC :: element where
  "docC =
     \<lparr>eprops = plain ''HTML'',
      childNodes =
        [ElemNode (plain ''HEAD'') [],
         ElemNode (plain ''BODY'')
           [ElemNode (plain ''SPAN'') [TextNode ''Active''],
            ElemNode (plain ''SPAN'') [TextNode ''Active''],
            ElemNode (plain ''SPAN'') [TextNode ''Active'']]],
      ancestors = []\<rparr>"

definition bodyC :: element where
  "bodyC = enter docC 1"

definition span1C :: element where
  "span1C = enter bodyC 0"

definition span2C :: element where
  "span2C = enter bodyC 1"

definition span3C :: element where
  "span3C = enter bodyC 2"

text \<open>
  The expressions that \<open>TextStrategy.generate\<close> tries for a span with the text \<open>Active\<close>
  (part_001, lines 47-63), and what \<open>document.evaluate\<close> gives on the document with the
  three spans: each of them, and the expression of \<open>detectDuplicateText\<close>, matches the three
  spans, in document order; any other expression is taken to match nothing.
\<close>

definition activeExpressions :: "string list" where
  "activeExpressions =
     [''//span[text()='' @ quoted ''Active'' @ '']'',
      ''//span[contains(text(), '' @ quoted ''Active'' @ '')]'',
      ''//span[normalize-space(text())='' @ quoted ''Active'' @ '']'',
      ''//*[text()='' @ quoted ''Active'' @ '']'',
      ''//*[contains(text(), '' @ quoted ''Active'' @ '')]'']"

definition evaluateC :: "string \<Rightarrow> exn + element list" where
  "evaluateC x =
     (if x = duplicateQuery ''Active'' \<or> x \<in> set activeExpressions
      then Inr [span1C, span2C, span3C] else Inr [])"

text \<open>The span of the first example document, given a class attribute.\<close>

definition spanWithClass :: "string \<Rightarrow> element" where
  "spanWithClass cn = spanA\<lparr>eprops := (eprops spanA)\<lparr>className := ClassString cn\<rparr>\<rparr>"

text \<open>A fallback constructor that throws.\<close>

definition throwingFallback :: "element \<Rightarrow> exn + string" where
  "throwingFallback el = Inl (Exn ''boom'')"

section \<open>The exits of the coordinator\<close>

text \<open>The argument that line 20 rejects.\<close>

definition invalidArg :: "jsval \<Rightarrow> bool" where
  "invalidArg v =
     (case v of
        Null \<Rightarrow> True
      | NoTagName \<Rightarrow> True
      | TagOnly tag \<Rightarrow> tag = ''''
      | Elem el \<Rightarrow> tagName (eprops el) = '''')"

text \<open>The result objects of the exits, by name.\<close>

definition invalidResult :: "int \<Rightarrow> ('c, 'a) generation" where
  "invalidResult t =
     \<lparr>success = False, primary = None, alternatives = [], rcontext = None,
      error = Some InvalidElement, element = None, analysis = None, timestamp = t\<rparr>"

definition caughtResult :: "element \<Rightarrow> exn \<Rightarrow> int \<Rightarrow> ('c, 'a) generation" where
  "caughtResult el e t =
     \<lparr>success = False, primary = None, alternatives = [], rcontext = None,
      error = Some (ExtractionFailed (message e)), element = Some (summarize el),
      analysis = None, timestamp = t\<rparr>"

definition failedResult :: "element \<Rightarrow> 'a \<Rightarrow> int \<Rightarrow> ('c, 'a) generation" where
  "failedResult el an t =
     \<lparr>success = False, primary = None, alternatives = [], rcontext = None,
      error = Some NoValidXPath, element = Some (summarize el),
      analysis = Some an, timestamp = t\<rparr>"

definition fallbackResult :: "element \<Rightarrow> 'a \<Rightarrow> string \<Rightarrow> int \<Rightarrow> ('c, 'a) generation" where
  "fallbackResult el an x t =
     \<lparr>success = True,
      primary = Some \<lparr>strategy = ''fallback'', xpath = x, score = 1, cand_priority = 0\<rparr>,
      alternatives = [], rcontext = None, error = None, element = Some (summarize el),
      analysis = Some an, timestamp = t\<rparr>"

definition enhancedResult :: "'c ranked \<Rightarrow> element \<Rightarrow> 'a \<Rightarrow> int \<Rightarrow> ('c, 'a) generation" where
  "enhancedResult m el an t =
     \<lparr>success = success m, primary = primary m, alternatives = alternatives m,
      rcontext = rcontext m, error = None, element = Some (summarize el),
      analysis = Some an, timestamp = t\<rparr>"

section \<open>Auxiliary facts\<close>

subsection \<open>The strategy manager\<close>

lemma strategyLoop_map_filter:
  "strategyLoop h el c ss acc = acc @ List.map_filter (tryStrategy h el c) ss"
  by (induction ss arbitrary: acc) (auto simp: List.map_filter_simps split: option.splits)

lemma tryStrategy_throws:
  "isApplicable s el c = Inl a \<or> generate s el c = Inl b \<or> getScore s el c = Inl d
     \<Longrightarrow> tryStrategy h el c s = None"
  by (auto simp: tryStrategy_def split: sum.splits option.splits)

lemma map_filter_drop:
  "f s = None \<Longrightarrow> List.map_filter f (xs @ s # ys) = List.map_filter f (xs @ ys)"
  by (simp add: List.map_filter_def)

lemma rank_sorted: "sorted (map (\<lambda>a. - score a) (rank xs))"
  by (simp add: rank_def)

lemma rank_mset: "mset (rank xs) = mset xs"
  by (simp add: rank_def)

lemma rank_stable: "filter (\<lambda>a. score a = k) (rank xs) = filter (\<lambda>a. score a = k) xs"
  using sort_key_stable [of "\<lambda>a. - score a" "- k" xs] by (simp add: rank_def)

lemma rank_set: "set (rank xs) = set xs"
  by (simp add: rank_def)

lemma rank_head_max:
  assumes "rank xs = p # ps" and "a \<in> set xs"
  shows "score a \<le> score p"
proof -
  have "sorted (map (\<lambda>a. - score a) (p # ps))"
    using rank_sorted [of xs] assms(1) by simp
  moreover have "a \<in> set (p # ps)" using assms rank_set [of xs] by simp
  ultimately show ?thesis by auto
qed

lemma register_sorted: "sorted (map (\<lambda>a. - priority a) (registerStrategy s reg))"
  by (simp add: registerStrategy_def)

lemma register_stable:
  "filter (\<lambda>a. priority a = p) (registerStrategy s reg) = filter (\<lambda>a. priority a = p) (reg @ [s])"
  using sort_key_stable [of "\<lambda>a. - priority a" "- p" "reg @ [s]"]
  by (simp add: registerStrategy_def)

lemma random_no_empty: "p \<in> set randomPatterns \<Longrightarrow> \<not> rx_test p []"
  by (auto simp: randomPatterns_def Plus_def)

lemma hasRandomClasses_true:
  assumes "className (eprops el) = ClassString cn"
    and "\<exists>cls\<in>set (splitWs cn). \<exists>p\<in>set randomPatterns. rx_test p cls"
  shows "hasRandomClasses el = Inr True"
proof -
  have "cn \<noteq> []"
  proof
    assume "cn = []"
    with assms(2) obtain p where "p \<in> set randomPatterns" "rx_test p []" by auto
    then show False using random_no_empty by blast
  qed
  then show ?thesis
    using assms by (simp add: hasRandomClasses_def list_ex_iff)
qed

lemma set_take_drop: "set (take n (drop m xs)) \<subseteq> set xs"
  by (meson set_drop_subset set_take_subset subset_trans)

lemma candidates_produced:
  assumes "managerGenerateXPath ss el c = Inr r" and "hasRandomClasses el = Inr h"
    and "a \<in> set (candidates r)"
  shows "\<exists>s\<in>set ss. tryStrategy h el c s = Some a"
proof -
  let ?ranked = "rank (strategyLoop h el c ss [])"
  have r: "primary r = (case ?ranked of [] \<Rightarrow> None | p # ps \<Rightarrow> Some p)"
          "alternatives r = take 2 (drop 1 ?ranked)"
    using assms(1,2) by (auto simp: managerGenerateXPath_def Let_def)
  have "a \<in> set ?ranked"
  proof (cases "primary r = Some a")
    case True
    then show ?thesis using r(1) by (auto split: list.splits)
  next
    case False
    then have "a \<in> set (alternatives r)"
      using assms(3) by (auto simp: candidates_def split: option.splits)
    then show ?thesis using r(2) set_take_drop by fastforce
  qed
  then have "a \<in> set (List.map_filter (tryStrategy h el c) ss)"
    by (simp add: rank_def strategyLoop_map_filter)
  then show ?thesis by (auto simp: List.map_filter_def)
qed

lemma tryStrategy_score:
  assumes "tryStrategy h el c s = Some a"
  shows "\<exists>sc. getScore s el c = Inr sc \<and> strategy a = name s \<and>
              score a = (if h \<and> name s = ''attribute'' then sc - 50 else sc)"
  using assms by (auto simp: tryStrategy_def split: sum.splits option.splits if_splits)

subsection \<open>The coordinator\<close>

lemma tryBody_analysis_throws:
  "analyze env el = Inl e \<Longrightarrow> tryBody fb env cache clk el = Inl e"
  by (simp add: tryBody_def)

lemma tryBody_manager_throws:
  "analyze env el = Inr an \<Longrightarrow>
   managerGenerateXPath (strategies env) el (buildContext env el an) = Inl e \<Longrightarrow>
   tryBody fb env cache clk el = Inl e"
  by (simp add: tryBody_def)

lemma tryBody_success:
  "analyze env el = Inr an \<Longrightarrow>
   managerGenerateXPath (strategies env) el (buildContext env el an) = Inr m \<Longrightarrow>
   success m \<Longrightarrow>
   tryBody fb env cache clk el =
     Inr (enhancedResult m el an (t_result clk),
          cleanupCache (t_cleanup clk)
            (AList.update (generateCacheKey env el)
               \<lparr>data = enhancedResult m el an (t_result clk), stored_at = t_store clk\<rparr> cache))"
  by (simp add: tryBody_def enhancedResult_def Let_def)

lemma tryBody_fallback:
  "analyze env el = Inr an \<Longrightarrow>
   managerGenerateXPath (strategies env) el (buildContext env el an) = Inr m \<Longrightarrow>
   \<not> success m \<Longrightarrow> fb el = Inr x \<Longrightarrow> x \<noteq> [] \<Longrightarrow>
   tryBody fb env cache clk el = Inr (fallbackResult el an x (t_result clk), cache)"
  by (simp add: tryBody_def fallbackResult_def Let_def)

lemma tryBody_failed:
  "analyze env el = Inr an \<Longrightarrow>
   managerGenerateXPath (strategies env) el (buildContext env el an) = Inr m \<Longrightarrow>
   \<not> success m \<Longrightarrow> (\<exists>e. fb el = Inl e) \<or> fb el = Inr [] \<Longrightarrow>
   tryBody fb env cache clk el = Inr (failedResult el an (t_result clk), cache)"
  by (auto simp: tryBody_def failedResult_def Let_def)

lemma generate_invalid:
  "invalidArg v \<Longrightarrow> generateXPathWith fb env cache clk v = Inr (invalidResult (t_result clk), cache)"
  by (auto simp: generateXPathWith_def invalidArg_def invalidResult_def Let_def split: jsval.splits)

lemma generate_hit:
  "tagName (eprops el) \<noteq> [] \<Longrightarrow> map_of cache (generateCacheKey env el) = Some c \<Longrightarrow>
   t_check clk - stored_at c < cacheTimeout \<Longrightarrow>
   generateXPathWith fb env cache clk (Elem el) = Inr (data c, cache)"
  by (simp add: generateXPathWith_def Let_def)

lemma generate_miss:
  "tagName (eprops el) \<noteq> [] \<Longrightarrow> cacheMiss cache (generateCacheKey env el) (t_check clk) \<Longrightarrow>
   generateXPathWith fb env cache clk (Elem el) =
     (case tryBody fb env cache clk el of
        Inr r \<Rightarrow> Inr r
      | Inl e \<Rightarrow> Inr (caughtResult el e (t_result clk), cache))"
  by (auto simp: generateXPathWith_def cacheMiss_def caughtResult_def Let_def split: option.splits sum.splits)

lemma cacheOK_lookup:
  "cacheOK cache \<Longrightarrow> map_of cache k = Some c \<Longrightarrow> success (data c) \<and> error (data c) = None"
  by (auto simp: cacheOK_def list_all_iff dest!: map_of_SomeD)

lemma generate_cases:
  obtains
    (invalid) "invalidArg v"
      "generateXPathWith fb env cache clk v = Inr (invalidResult (t_result clk), cache)"
  | (hit) el c where "v = Elem el" "\<not> invalidArg v"
      "map_of cache (generateCacheKey env el) = Some c"
      "\<not> cacheMiss cache (generateCacheKey env el) (t_check clk)"
      "generateXPathWith fb env cache clk v = Inr (data c, cache)"
  | (analysis) el e where "v = Elem el" "\<not> invalidArg v"
      "cacheMiss cache (generateCacheKey env el) (t_check clk)"
      "analyze env el = Inl e"
      "generateXPathWith fb env cache clk v = Inr (caughtResult el e (t_result clk), cache)"
  | (manager) el an e where "v = Elem el" "\<not> invalidArg v"
      "cacheMiss cache (generateCacheKey env el) (t_check clk)"
      "analyze env el = Inr an"
      "managerGenerateXPath (strategies env) el (buildContext env el an) = Inl e"
      "generateXPathWith fb env cache clk v = Inr (caughtResult el e (t_result clk), cache)"
  | (ranked) el an m where "v = Elem el" "\<not> invalidArg v"
      "cacheMiss cache (generateCacheKey env el) (t_check clk)"
      "analyze env el = Inr an"
      "managerGenerateXPath (strategies env) el (buildContext env el an) = Inr m" "success m"
      "generateXPathWith fb env cache clk v =
         Inr (enhancedResult m el an (t_result clk),
              cleanupCache (t_cleanup clk)
                (AList.update (generateCacheKey env el)
                   \<lparr>data = enhancedResult m el an (t_result clk), stored_at = t_store clk\<rparr> cache))"
  | (fallback) el an m x where "v = Elem el" "\<not> invalidArg v"
      "cacheMiss cache (generateCacheKey env el) (t_check clk)"
      "analyze env el = Inr an"
      "managerGenerateXPath (strategies env) el (buildContext env el an) = Inr m" "\<not> success m"
      "fb el = Inr x" "x \<noteq> []"
      "generateXPathWith fb env cache clk v = Inr (fallbackResult el an x (t_result clk), cache)"
  | (failed) el an m where "v = Elem el" "\<not> invalidArg v"
      "cacheMiss cache (generateCacheKey env el) (t_check clk)"
      "analyze env el = Inr an"
      "managerGenerateXPath (strategies env) el (buildContext env el an) = Inr m" "\<not> success m"
      "(\<exists>e. fb el = Inl e) \<or> fb el = Inr []"
      "generateXPathWith fb env cache clk v = Inr (failedResult el an (t_result clk), cache)"
  | (rejected) tag where "v = TagOnly tag" "\<not> invalidArg v"
      "generateXPathWith fb env cache clk v = Inl notIterable"
proof (cases "invalidArg v")
  case True
  then show ?thesis using invalid generate_invalid by blast
next
  case False
  then consider (obj) tag where "v = TagOnly tag" "tag \<noteq> []"
    | (elem) el where "v = Elem el" "tagName (eprops el) \<noteq> []"
    by (auto simp: invalidArg_def split: jsval.splits)
  then show ?thesis
  proof cases
    case (obj tag)
    then have "generateXPathWith fb env cache clk v = Inl notIterable"
      by (simp add: generateXPathWith_def)
    then show ?thesis using rejected [OF obj(1) False] by blast
  next
    case (elem el)
    note v = elem(1) and tag = elem(2)
  show ?thesis
  proof (cases "cacheMiss cache (generateCacheKey env el) (t_check clk)")
    case nomiss: False
    then obtain c where c: "map_of cache (generateCacheKey env el) = Some c"
      "t_check clk - stored_at c < cacheTimeout"
      by (auto simp: cacheMiss_def split: option.splits)
    show ?thesis using hit [OF v False c(1) nomiss] generate_hit [OF tag c] v by simp
  next
    case miss: True
    note gm = generate_miss [OF tag miss, of fb]
    show ?thesis
    proof (cases "analyze env el")
      case (Inl e)
      show ?thesis
        using analysis [OF v False miss Inl] gm tryBody_analysis_throws [OF Inl, of fb cache clk] v
        by simp
    next
      case (Inr an)
      show ?thesis
      proof (cases "managerGenerateXPath (strategies env) el (buildContext env el an)")
        case e: (Inl e)
        show ?thesis
          using manager [OF v False miss Inr e] gm tryBody_manager_throws [OF Inr e, of fb cache clk] v
          by simp
      next
        case m: (Inr m)
        show ?thesis
        proof (cases "success m")
          case True
          show ?thesis
            using ranked [OF v False miss Inr m True] gm tryBody_success [OF Inr m True, of fb cache clk] v
            by simp
        next
          case ns: False
          show ?thesis
          proof (cases "(\<exists>e. fb el = Inl e) \<or> fb el = Inr []")
            case True
            show ?thesis
              using failed [OF v False miss Inr m ns True] gm
                tryBody_failed [where fb = fb and cache = cache and clk = clk, OF Inr m ns True] v
              by simp
          next
            case ok: False
            then obtain x where x: "fb el = Inr x" "x \<noteq> []"
              by (cases "fb el") auto
            show ?thesis
              using fallback [OF v False miss Inr m ns x] gm
                tryBody_fallback [where fb = fb and cache = cache and clk = clk, OF Inr m ns x] v
              by simp
          qed
        qed
      qed
    qed
  qed
qed
qed

subsection \<open>The fallback expression\<close>

lemma fallbackLoop_None: "fallbackLoop b None acc = acc"
  by (simp add: fallbackLoop.simps)

lemma fallbackLoop_segments:
  "fallbackLoop b (Some el) acc = segments b (ancestorChain el) @ acc"
proof (induction el arbitrary: acc rule: ancestorChain.induct)
  case (1 el)
  show ?case
  proof (cases "parentElement el")
    case None
    then show ?thesis
      by (simp add: fallbackLoop.simps [of b "Some el"] ancestorChain.simps [of el]
            fallbackLoop_None indexSegment_def idSegment_def squote_def Let_def)
  next
    case (Some p)
    then show ?thesis
      using "1.IH" [OF Some]
      by (simp add: fallbackLoop.simps [of b "Some el"] ancestorChain.simps [of el]
            indexSegment_def idSegment_def squote_def Let_def)
  qed
qed

lemma segments_empty_iff: "segments b (ancestorChain el) = [] \<longleftrightarrow> Some el = b"
  by (subst ancestorChain.simps) simp

lemma generateFallbackXPath_eq:
  "generateFallbackXPath b el =
     (if Some el = b then ''//'' @ toLowerCase (tagName (eprops el))
      else ''/'' @ join ''/'' (segments b (ancestorChain el)))"
  using segments_empty_iff [of b el]
  by (auto simp: generateFallbackXPath_def fallbackLoop_segments Let_def)

lemma generateFallbackXPath_nonempty: "generateFallbackXPath b el \<noteq> []"
  by (simp add: generateFallbackXPath_def Let_def)

lemma generateXPath_not_failed:
  assumes "cacheOK cache" and "generateXPathWith fb env cache clk v = Inr (r, c')"
    and "error r = Some NoValidXPath"
  shows "\<exists>el. v = Elem el \<and> ((\<exists>e. fb el = Inl e) \<or> fb el = Inr [])"
proof (cases rule: generate_cases [of v fb env cache clk])
  case invalid
  then show ?thesis using assms by (auto simp: invalidResult_def)
next
  case (hit el c)
  then show ?thesis using assms cacheOK_lookup [OF assms(1) hit(3)] by auto
next
  case (analysis el e)
  then show ?thesis using assms by (auto simp: caughtResult_def)
next
  case (manager el an e)
  then show ?thesis using assms by (auto simp: caughtResult_def)
next
  case (ranked el an m)
  then show ?thesis using assms by (auto simp: enhancedResult_def)
next
  case (fallback el an m x)
  then show ?thesis using assms by (auto simp: fallbackResult_def)
next
  case (failed el an m)
  then show ?thesis by blast
next
  case (rejected tag)
  then show ?thesis using assms by simp
qed


lemma map_of_cleanup_update:
  assumes "\<not> (now - stored_at v > cacheTimeout)"
  shows "map_of (cleanupCache now (AList.update k v cache)) k = Some v"
proof -
  have "map_of (AList.update k v cache) k = Some v"
    by (simp add: update_conv')
  then show ?thesis
    unfolding cleanupCache_def using assms
    by (intro map_of_filter_in) auto
qed

subsection \<open>Visible text and the text strategy\<close>

lemma textNodes_directTexts: "textNodes ns = map trim (directTexts ns)"
  by (induction ns rule: textNodes.induct) (simp_all add: directTexts_def)

lemma trim_idem: "trim (trim s) = trim s"
proof -
  let ?t = "dropWhile is_space s"
  let ?u = "rev (dropWhile is_space (rev ?t))"
  have t: "?t = ?u @ rev (takeWhile is_space (rev ?t))"
    by (metis rev_append rev_rev_ident takeWhile_dropWhile_id)
  have "?u = [] \<or> \<not> is_space (hd ?u)"
  proof (cases "?u = []")
    case False
    then have "hd ?u = hd ?t" using t by (metis hd_append2)
    moreover have "?t \<noteq> []"
    proof
      assume e: "?t = []"
      have "?u = []" by (simp only: e rev.simps dropWhile.simps)
      with False show False by simp
    qed
    ultimately show ?thesis using hd_dropWhile [of is_space s] by simp
  qed simp
  then have "dropWhile is_space ?u = ?u"
    by (simp add: dropWhile_eq_self_iff)
  then show ?thesis
    by (simp add: trim_def)
qed

lemma detect_none:
  "detectDuplicateText evaluate text el =
     \<lparr>hasDuplicates = False, count = 1, elements = [], targetIndex = 0\<rparr>"
  by (simp add: detectDuplicateText_def getElementIndexInDuplicates_def Let_def split: sum.splits)

lemma contextAware_throws:
  "generateContextAwareXPath evaluate el text d =
     Inl (notAFunction ''generateContainerBasedXPath'')"
  by (simp add: generateContextAwareXPath_def generateContainerBasedXPath_def Let_def)

lemma span3C_text_strategy:
  "evaluateC (duplicateQuery ''Active'') = Inr [span1C, span2C, span3C]"
  "span1C \<noteq> span3C"
  "textGenerate evaluateC span3C = Inr None"
  "tryStrategy False span3C () (textStrategy evaluateC) = None"
  by code_simp+

lemma span1C_text_strategy:
  "textGenerate evaluateC span1C = Inr (Some (''//span[text()='' @ quoted ''Active'' @ '']''))"
  "evaluateC (''//span[text()='' @ quoted ''Active'' @ '']'') = Inr [span1C, span2C, span3C]"
  "tryStrategy False span1C () (textStrategy evaluateC) =
     Some \<lparr>strategy = ''text'', xpath = ''//span[text()='' @ quoted ''Active'' @ '']'',
           score = 360, cand_priority = 110\<rparr>"
  by code_simp+

subsection \<open>The example documents\<close>

lemmas docA_defs = spanA_def bodyA_def docA_def enter_def childAt_def plain_def visible_def

lemmas docB_defs = input1_def input2_def bodyB_def docB_def inputQ_def
  enter_def childAt_def plain_def visible_def

lemmas docE_defs = svgE_def parE_def emptyBox_def bodyE_def docE_def
  enter_def childAt_def plain_def visible_def

lemmas docC_defs = span1C_def span2C_def span3C_def bodyC_def docC_def
  enter_def childAt_def plain_def visible_def

lemmas lower_defs = toLowerCase_def lower_char_def upperChars_def lowerChars_def



lemma spanA_tag: "tagName (eprops spanA) = ''SPAN''"
  by (simp add: docA_defs)

lemma spanA_class: "className (eprops spanA) = ClassString []"
  by (simp add: docA_defs)

lemma spanA_summary:
  "summarize spanA = \<lparr>sum_tagName = ''span'', sum_text = [], sum_id = [],
                       sum_className = ClassString []\<rparr>"
  by (simp add: summarize_def docA_defs lower_defs getVisibleText_def trim_def)

lemma spanA_fallback: "generateFallbackXPath (Some bodyA) spanA = ''/div[1]/span[1]''"
  by (simp add: generateFallbackXPath_def fallbackLoop.simps docA_defs lower_defs
        getElementIndex_def parentElement_def as_node_def digits_of.simps Let_def)



lemma spanF_parent: "parentElement spanF = Some divF" "elemId (eprops divF) = ''a304c4ac''"
  by code_simp+


lemma join_Cons: "join sep (x # xs) = x @ (if xs = [] then [] else sep @ join sep xs)"
  by (cases xs) simp_all

lemma segments_id_anchor:
  assumes "list_all (\<lambda>e. Some e \<noteq> b \<and> elemId (eprops e) = []) pre"
    and "Some a \<noteq> b" and "elemId (eprops a) \<noteq> []"
  shows "segments b (pre @ a # post) = idSegment a # rev (map indexSegment pre)"
  using assms by (induction pre) auto

lemma ancestorChain_head: "ancestorChain el = pre @ a # post \<Longrightarrow> el = hd (pre @ [a])"
  by (subst (asm) ancestorChain.simps) (cases pre; simp)

lemma id_anchor_triple_slash:
  assumes "ancestorChain el = pre @ a # post"
    and "list_all (\<lambda>e. Some e \<noteq> b \<and> elemId (eprops e) = []) pre"
    and "Some a \<noteq> b" and "elemId (eprops a) \<noteq> []"
  shows "generateFallbackXPath b el =
           ''/'' @ join ''/'' (idSegment a # rev (map indexSegment pre))"
    and "take 3 (generateFallbackXPath b el) = ''///''"
proof -
  have "Some el \<noteq> b"
    using ancestorChain_head [OF assms(1)] assms(2,3) by (cases pre) auto
  then show 1: "generateFallbackXPath b el =
           ''/'' @ join ''/'' (idSegment a # rev (map indexSegment pre))"
    by (simp add: generateFallbackXPath_eq assms(1) segments_id_anchor [OF assms(2,3,4)])
  show "take 3 (generateFallbackXPath b el) = ''///''"
    unfolding 1 by (simp add: join_Cons idSegment_def)
qed




lemma spanA_manager_none:
  "managerGenerateXPath [] spanA () =
     Inr \<lparr>success = False, primary = None, alternatives = [], rcontext = Some ()\<rparr>"
  by (simp add: managerGenerateXPath_def hasRandomClasses_def spanA_class rank_def)

lemma spanA_miss:
  "generateXPathWith fb (envOf ss bodyA) [] (at t) (Elem spanA) =
     (case tryBody fb (envOf ss bodyA) [] (at t) spanA of
        Inr r \<Rightarrow> Inr r
      | Inl e \<Rightarrow> Inr (caughtResult spanA e (t_result (at t)), []))"
  by (rule generate_miss) (simp_all add: spanA_tag cacheMiss_def)

lemma spanA_generate_fallback:
  "generateXPath (envOf [] bodyA) [] (at t) (Elem spanA) =
     Inr (fallbackResult spanA () ''/div[1]/span[1]'' t, [])"
proof -
  have "tryBody (\<lambda>el. Inr (generateFallbackXPath (Some bodyA) el)) (envOf [] bodyA) [] (at t) spanA =
          Inr (fallbackResult spanA () ''/div[1]/span[1]'' (t_result (at t)), [])"
    by (rule tryBody_fallback [where an = "()"
          and m = "\<lparr>success = False, primary = None, alternatives = [], rcontext = Some ()\<rparr>"])
       (simp_all add: envOf_def spanA_manager_none spanA_fallback)
  then show ?thesis
    by (simp add: generateXPath_def spanA_miss) (simp add: envOf_def at_def)
qed

lemma spanA_generate_failed:
  "generateXPathWith throwingFallback (envOf [] bodyA) [] (at t) (Elem spanA) =
     Inr (failedResult spanA () t, [])"
proof -
  have "tryBody throwingFallback (envOf [] bodyA) [] (at t) spanA =
          Inr (failedResult spanA () (t_result (at t)), [])"
    by (rule tryBody_failed [where an = "()"
          and m = "\<lparr>success = False, primary = None, alternatives = [], rcontext = Some ()\<rparr>"])
       (simp_all add: envOf_def spanA_manager_none throwingFallback_def)
  then show ?thesis
    by (simp add: spanA_miss) (simp add: at_def)
qed

lemma relative_manager:
  "managerGenerateXPath [fixed ''relative'' 60 ''//span'' 60] spanA () =
     Inr \<lparr>success = True,
          primary = Some \<lparr>strategy = ''relative'', xpath = ''//span'', score = 60,
                          cand_priority = 60\<rparr>,
          alternatives = [], rcontext = Some ()\<rparr>"
  by (simp add: managerGenerateXPath_def hasRandomClasses_def spanA_class rank_def
        tryStrategy_def fixed_def)

lemma spanA_generate_relative:
  "generateXPathWith fb (envOf [fixed ''relative'' 60 ''//span'' 60] bodyA) [] (at t) (Elem spanA) =
     Inr (\<lparr>success = True,
            primary = Some \<lparr>strategy = ''relative'', xpath = ''//span'', score = 60,
                            cand_priority = 60\<rparr>,
            alternatives = [], rcontext = Some (), error = None,
            element = Some \<lparr>sum_tagName = ''span'', sum_text = [], sum_id = [],
                            sum_className = ClassString []\<rparr>,
            analysis = Some (), timestamp = t\<rparr>,
          [(''key'',
            \<lparr>data = \<lparr>success = True,
                      primary = Some \<lparr>strategy = ''relative'', xpath = ''//span'', score = 60,
                                      cand_priority = 60\<rparr>,
                      alternatives = [], rcontext = Some (), error = None,
                      element = Some \<lparr>sum_tagName = ''span'', sum_text = [], sum_id = [],
                                      sum_className = ClassString []\<rparr>,
                      analysis = Some (), timestamp = t\<rparr>,
             stored_at = t\<rparr>)])"
proof -
  let ?m = "\<lparr>success = True,
          primary = Some \<lparr>strategy = ''relative'', xpath = ''//span'', score = 60,
                          cand_priority = 60\<rparr>,
          alternatives = [], rcontext = Some ()\<rparr>"
  have "tryBody fb (envOf [fixed ''relative'' 60 ''//span'' 60] bodyA) [] (at t) spanA =
          Inr (enhancedResult ?m spanA () (t_result (at t)),
          cleanupCache (t_cleanup (at t))
            (AList.update (generateCacheKey (envOf [fixed ''relative'' 60 ''//span'' 60] bodyA) spanA)
               \<lparr>data = enhancedResult ?m spanA () (t_result (at t)), stored_at = t_store (at t)\<rparr> []))"
    by (rule tryBody_success) (simp_all add: envOf_def relative_manager)
  then show ?thesis
    by (simp add: spanA_miss)
       (simp add: envOf_def at_def enhancedResult_def spanA_summary cleanupCache_def cacheTimeout_def)
qed

lemma svgE_caught:
  "generateXPathWith fb (envOf ss bodyE) [] (at 0) (Elem svgE) =
     Inr (\<lparr>success = False, primary = None, alternatives = [], rcontext = None,
            error = Some (ExtractionFailed ''element.className.split is not a function''),
            element = Some \<lparr>sum_tagName = ''svg'', sum_text = [], sum_id = [],
                            sum_className = SVGAnimatedString ''icon''\<rparr>,
            analysis = None, timestamp = 0\<rparr>, [])"
proof -
  have tag: "tagName (eprops svgE) = ''svg''"
    by (simp add: docE_defs)
  have h: "hasRandomClasses svgE = Inl (Exn ''element.className.split is not a function'')"
    by (simp add: hasRandomClasses_def docE_defs)
  have s: "summarize svgE = \<lparr>sum_tagName = ''svg'', sum_text = [], sum_id = [],
                            sum_className = SVGAnimatedString ''icon''\<rparr>"
    by (simp add: summarize_def docE_defs lower_defs getVisibleText_def trim_def)
  have "tryBody fb (envOf ss bodyE) [] (at 0) svgE =
          Inl (Exn ''element.className.split is not a function'')"
    by (rule tryBody_manager_throws [where an = "()"])
       (simp_all add: envOf_def managerGenerateXPath_def h)
  moreover have "generateXPathWith fb (envOf ss bodyE) [] (at 0) (Elem svgE) =
     (case tryBody fb (envOf ss bodyE) [] (at 0) svgE of
        Inr r \<Rightarrow> Inr r
      | Inl e \<Rightarrow> Inr (caughtResult svgE e (t_result (at 0)), []))"
    by (rule generate_miss) (simp_all add: tag cacheMiss_def)
  ultimately show ?thesis
    by (simp add: caughtResult_def s message_def at_def)
qed

lemma bodyA_fallback:
  "fallbackLoop (Some bodyA) (Some bodyA) [] = []"
  "generateFallbackXPath (Some bodyA) bodyA = ''//body''"
  by (simp_all add: generateFallbackXPath_def fallbackLoop.simps docA_defs lower_defs)

section \<open>The claims\<close>

subsection \<open>C1\<close>

text \<open>
  Claim C1, at an input where the code departs from it.  In the example document with the
  two inputs the expression \<open>//*[@name='q']\<close> matches both inputs.  \<open>BaseStrategy.validateXPath\<close>
  accepts it for the first input, where \<open>XPathGenerator.validateXPath\<close> reports that it
  is not unique; it is the first expression that the attribute strategy builds for that
  input, and with the attribute strategy in the registry the coordinator returns it as
  the primary candidate of a successful result, although its evaluation is not a
  singleton.
\<close>

theorem first_match_is_accepted:
  "evaluateB nameQ = Inr [input1, input2] \<and> input1 \<noteq> input2 \<and>
   validateXPath evaluateB nameQ input1 \<and>
   generatorValidateXPath evaluateB nameQ input1 =
     \<lparr>valid = True, unique = False, correct = True, matchCount = 2,
      vmessage = ValidationOk\<rparr> \<and>
   generateXPath (envOf [attributeStrategy evaluateB] bodyB) [] (at 0) (Elem input1) =
     Inr (\<lparr>success = True,
            primary = Some \<lparr>strategy = ''attribute'', xpath = nameQ, score = 130,
                            cand_priority = 100\<rparr>,
            alternatives = [], rcontext = Some (), error = None,
            element = Some \<lparr>sum_tagName = ''input'', sum_text = [], sum_id = [],
                            sum_className = ClassString []\<rparr>,
            analysis = Some (), timestamp = 0\<rparr>,
          [(''key'',
            \<lparr>data = \<lparr>success = True,
                      primary = Some \<lparr>strategy = ''attribute'', xpath = nameQ, score = 130,
                                      cand_priority = 100\<rparr>,
                      alternatives = [], rcontext = Some (), error = None,
                      element = Some \<lparr>sum_tagName = ''input'', sum_text = [], sum_id = [],
                                      sum_className = ClassString []\<rparr>,
                      analysis = Some (), timestamp = 0\<rparr>,
             stored_at = 0\<rparr>)])"
proof -
  have i: "input1 \<noteq> input2"
    by (simp add: input1_def input2_def bodyB_def docB_def enter_def childAt_def inputQ_def)
  have v: "validateXPath evaluateB nameQ input1"
    by (simp add: validateXPath_def evaluateB_def singleNodeValue_def)
  have gv: "generatorValidateXPath evaluateB nameQ input1 =
     \<lparr>valid = True, unique = False, correct = True, matchCount = 2,
      vmessage = ValidationOk\<rparr>"
    by (simp add: generatorValidateXPath_def evaluateB_def)
  have a: "attributeIsApplicable input1"
    by code_simp
  have f: "attributeFormulations input1 = Inr [nameQ, inputNameQ]"
    by code_simp
  have sc: "attributeGetScore 100 input1 = Inr 130"
    by code_simp
  have t: "tryStrategy False input1 () (attributeStrategy evaluateB) =
             Some \<lparr>strategy = ''attribute'', xpath = nameQ, score = 130, cand_priority = 100\<rparr>"
  proof -
    have "nameQ \<noteq> []"
      by (simp add: nameQ_def)
    then show ?thesis
      using v by (simp add: tryStrategy_def attributeStrategy_def attributeGenerate_def a f sc)
  qed
  have h: "hasRandomClasses input1 = Inr False"
    by (simp add: hasRandomClasses_def input1_def bodyB_def docB_def enter_def childAt_def
          inputQ_def plain_def)
  have m: "managerGenerateXPath [attributeStrategy evaluateB] input1 () =
             Inr \<lparr>success = True,
                  primary = Some \<lparr>strategy = ''attribute'', xpath = nameQ, score = 130,
                                  cand_priority = 100\<rparr>,
                  alternatives = [], rcontext = Some ()\<rparr>"
    by (simp add: managerGenerateXPath_def h t rank_def)
  have s: "summarize input1 = \<lparr>sum_tagName = ''input'', sum_text = [], sum_id = [],
                            sum_className = ClassString []\<rparr>"
    by (simp add: summarize_def input1_def bodyB_def docB_def enter_def childAt_def inputQ_def
          plain_def toLowerCase_def lower_char_def upperChars_def lowerChars_def getVisibleText_def
          visible_def trim_def)
  have tag: "tagName (eprops input1) = ''INPUT''"
    by (simp add: input1_def bodyB_def docB_def enter_def childAt_def inputQ_def plain_def)
  have g: "generateXPath (envOf [attributeStrategy evaluateB] bodyB) [] (at 0) (Elem input1) =
     Inr (enhancedResult \<lparr>success = True,
                  primary = Some \<lparr>strategy = ''attribute'', xpath = nameQ, score = 130,
                                  cand_priority = 100\<rparr>,
                  alternatives = [], rcontext = Some ()\<rparr> input1 () 0,
          cleanupCache 0 (AList.update ''key'' \<lparr>data = enhancedResult \<lparr>success = True,
                  primary = Some \<lparr>strategy = ''attribute'', xpath = nameQ, score = 130,
                                  cand_priority = 100\<rparr>,
                  alternatives = [], rcontext = Some ()\<rparr> input1 () 0, stored_at = 0\<rparr> []))"
    unfolding generateXPath_def
    by (subst generate_miss)
       (simp_all add: tag cacheMiss_def envOf_def at_def tryBody_success [where m = "\<lparr>success = True,
                  primary = Some \<lparr>strategy = ''attribute'', xpath = nameQ, score = 130,
                                  cand_priority = 100\<rparr>,
                  alternatives = [], rcontext = Some ()\<rparr>" and an = "()"] m)
  show ?thesis
    using i v g gv
    by (simp add: evaluateB_def enhancedResult_def s cleanupCache_def cacheTimeout_def)
qed

subsection \<open>C2\<close>

text \<open>
  Claim C2, at inputs where the code departs from it.  The object \<open>{tagName: 'DIV'}\<close> passes
  the test of line 20; the computation of the cache key in line 32 then throws before the
  \<open>try\<close> of line 38 is entered, and the exception reaches the caller, whatever the
  environment, the cache and the clock are.  And for the \<open>svg\<close> element of its example
  document, which has a tag name, the scan of the class names throws inside the \<open>try\<close>,
  whatever the registry is, and the coordinator returns a failure that is neither the
  invalid element nor the failure after the strategies.
\<close>

theorem exception_reaches_caller:
  "generateXPath env cache clk (TagOnly ''DIV'') = Inl notIterable \<and>
   tagName (eprops svgE) = ''svg'' \<and>
   generateXPath (envOf ss bodyE) [] (at 0) (Elem svgE) =
     Inr (\<lparr>success = False, primary = None, alternatives = [], rcontext = None,
            error = Some (ExtractionFailed ''element.className.split is not a function''),
            element = Some \<lparr>sum_tagName = ''svg'', sum_text = [], sum_id = [],
                            sum_className = SVGAnimatedString ''icon''\<rparr>,
            analysis = None, timestamp = 0\<rparr>, [])"
proof -
  have "generateXPath env cache clk (TagOnly ''DIV'') = Inl notIterable"
    by (simp add: generateXPath_def generateXPathWith_def)
  moreover have "tagName (eprops svgE) = ''svg''"
    by (simp add: docE_defs)
  ultimately show ?thesis
    by (simp add: generateXPath_def svgE_caught)
qed

subsection \<open>C3\<close>

text \<open>
  Claim C3.  If \<open>isApplicable\<close>, \<open>generate\<close> or \<open>getScore\<close> of a strategy of the registry
  throws for the element, the manager's result is the one it gives for the registry
  without that strategy: the loop over the strategies is the same, every candidate of
  every other strategy is in it, and the manager returns whenever the scan of the class
  names does.
\<close>

theorem strategy_exception_contained:
  assumes "isApplicable s el c = Inl a \<or> generate s el c = Inl b \<or> getScore s el c = Inl d"
  shows "managerGenerateXPath (xs @ s # ys) el c = managerGenerateXPath (xs @ ys) el c \<and>
         (\<forall>h. strategyLoop h el c (xs @ s # ys) [] = strategyLoop h el c (xs @ ys) []) \<and>
         (\<forall>h s' r. s' \<in> set (xs @ ys) \<longrightarrow> tryStrategy h el c s' = Some r \<longrightarrow>
              r \<in> set (strategyLoop h el c (xs @ s # ys) [])) \<and>
         (\<forall>h. hasRandomClasses el = Inr h \<longrightarrow>
              (\<exists>r. managerGenerateXPath (xs @ s # ys) el c = Inr r))"
proof -
  have none: "tryStrategy h el c s = None" for h
    using assms by (rule tryStrategy_throws)
  have loop: "strategyLoop h el c (xs @ s # ys) [] = strategyLoop h el c (xs @ ys) []" for h
    using none [of h] by (simp add: strategyLoop_map_filter map_filter_drop)
  have mem: "r \<in> set (strategyLoop h el c (xs @ s # ys) [])"
    if "s' \<in> set (xs @ ys)" "tryStrategy h el c s' = Some r" for h s' r
  proof -
    have "r \<in> set (List.map_filter (tryStrategy h el c) (xs @ ys))"
      using that by (force simp: List.map_filter_def)
    moreover have "List.map_filter (tryStrategy h el c) (xs @ s # ys) = List.map_filter (tryStrategy h el c) (xs @ ys)"
      using none [of h] by (rule map_filter_drop)
    ultimately show ?thesis by (simp only: strategyLoop_map_filter append_Nil)
  qed
  have "managerGenerateXPath (xs @ s # ys) el c = managerGenerateXPath (xs @ ys) el c"
    by (simp add: managerGenerateXPath_def loop split: sum.splits)
  moreover have "\<forall>h. hasRandomClasses el = Inr h \<longrightarrow> (\<exists>r. managerGenerateXPath (xs @ s # ys) el c = Inr r)"
    by (auto simp: managerGenerateXPath_def Let_def)
  ultimately show ?thesis using loop mem by (intro conjI allI impI) auto
qed

text \<open>The theorem of claim C3 at a concrete input.\<close>

theorem strategy_exception_contained_witness:
  "isApplicable throwing spanA () = Inl (Exn ''boom'') \<and>
   managerGenerateXPath ([] @ throwing # [fixed ''relative'' 60 ''//span'' 60]) spanA () =
     Inr \<lparr>success = True,
          primary = Some \<lparr>strategy = ''relative'', xpath = ''//span'', score = 60,
                          cand_priority = 60\<rparr>,
          alternatives = [], rcontext = Some ()\<rparr>"
proof -
  have t: "isApplicable throwing spanA () = Inl (Exn ''boom'')"
    by (simp add: throwing_def)
  have "isApplicable throwing spanA () = Inl (Exn ''boom'') \<or>
        generate throwing spanA () = Inl (Exn ''boom'') \<or>
        getScore throwing spanA () = Inl (Exn ''boom'')"
    using t by simp
  from strategy_exception_contained [OF this, of "[]" "[fixed ''relative'' 60 ''//span'' 60]"]
  show ?thesis using t by (simp add: relative_manager)
qed

subsection \<open>C4\<close>

text \<open>
  Claim C4, at an input where the code departs from it.  For every document, text and
  element \<open>detectDuplicateText\<close> reports no duplicates, since its call of the method that no
  class defines throws inside its \<open>try\<close>; and \<open>generateContextAwareXPath\<close>, were it called,
  would throw at its first call.  In the document with the three spans of the text
  \<open>Active\<close>, where the expression of \<open>detectDuplicateText\<close> matches the three spans, the
  text strategy has no candidate for the third span; for the first span its candidate is
  \<open>//span[text()='Active']\<close>, which matches the three spans, with the score 360, of which
  100 are for a text without duplicates.
\<close>

theorem duplicate_text_never_escalates:
  "detectDuplicateText evaluate text el =
     \<lparr>hasDuplicates = False, count = 1, elements = [], targetIndex = 0\<rparr> \<and>
   generateContextAwareXPath evaluate el text d =
     Inl (notAFunction ''generateContainerBasedXPath'') \<and>
   evaluateC (duplicateQuery ''Active'') = Inr [span1C, span2C, span3C] \<and>
   span1C \<noteq> span3C \<and>
   textGenerate evaluateC span3C = Inr None \<and>
   tryStrategy False span3C () (textStrategy evaluateC) = None \<and>
   textGenerate evaluateC span1C =
     Inr (Some (''//span[text()='' @ quoted ''Active'' @ '']'')) \<and>
   evaluateC (''//span[text()='' @ quoted ''Active'' @ '']'') = Inr [span1C, span2C, span3C] \<and>
   tryStrategy False span1C () (textStrategy evaluateC) =
     Some \<lparr>strategy = ''text'', xpath = ''//span[text()='' @ quoted ''Active'' @ '']'',
           score = 360, cand_priority = 110\<rparr>"
  by (intro conjI) (fact detect_none contextAware_throws span3C_text_strategy span1C_text_strategy)+

subsection \<open>C5\<close>

text \<open>
  Claim C5 fails as stated: an element with an empty bounding box has the visible text
  \<open>x\<close>, and the text nodes \<open>a\<close> and \<open>b\<close> give \<open>a b\<close>, not their concatenation.
\<close>

theorem visible_text_counterexample:
  "width (eprops emptyBox) = 0 \<and> height (eprops emptyBox) = 0 \<and>
   getVisibleText emptyBox = ''x'' \<and>
   directTexts (childNodes parE) = [''a'', ''b''] \<and>
   getVisibleText parE = ''a b''"
  by (simp add: emptyBox_def parE_def bodyE_def docE_def enter_def childAt_def plain_def
        visible_def getVisibleText_def directTexts_def trim_def is_space_def)

text \<open>
  Claim C5, as amended.  The visible text of an element is empty when the computed display
  is \<open>none\<close>, the visibility \<open>hidden\<close> or the opacity \<open>0\<close>; otherwise it is made of the text
  nodes among the element's own child nodes only: each is trimmed, the pieces are joined by
  a single space and the result is trimmed.  It has no white space at either end, and it
  does not depend on the bounding box.
\<close>

theorem visible_text:
  "getVisibleText e =
     (if display (style (eprops e)) = ''none'' \<or> visibility (style (eprops e)) = ''hidden'' \<or>
         opacity (style (eprops e)) = ''0''
      then []
      else trim (join '' '' (map trim (directTexts (childNodes e))))) \<and>
   trim (getVisibleText e) = getVisibleText e \<and>
   getVisibleText (e\<lparr>eprops := (eprops e)\<lparr>width := w, height := h\<rparr>\<rparr>) = getVisibleText e"
  by (simp add: getVisibleText_def textNodes_directTexts trim_idem Let_def)
     (simp add: trim_def)

subsection \<open>C6\<close>


subsection \<open>C7\<close>

text \<open>
  Claim C7 fails as stated: with no strategy, two calls for the span 5 time units apart
  leave the cache empty and return results with different timestamps, and the result of the
  second call depends on the registry it is given.
\<close>

theorem fallback_result_not_cached:
  "generateXPath (envOf [] bodyA) [] (at 0) (Elem spanA) =
     Inr (fallbackResult spanA () ''/div[1]/span[1]'' 0, []) \<and>
   generateXPath (envOf [] bodyA) [] (at 5) (Elem spanA) =
     Inr (fallbackResult spanA () ''/div[1]/span[1]'' 5, []) \<and>
   (fallbackResult spanA () ''/div[1]/span[1]'' 0 :: (unit, unit) generation) \<noteq>
     fallbackResult spanA () ''/div[1]/span[1]'' 5 \<and>
   generateXPath (envOf [fixed ''relative'' 60 ''//span'' 60] bodyA) [] (at 5) (Elem spanA) \<noteq>
     generateXPath (envOf [] bodyA) [] (at 5) (Elem spanA)"
  by (simp add: spanA_generate_fallback fallbackResult_def)
     (simp add: generateXPath_def spanA_generate_relative)

text \<open>
  Claim C7, as amended.  When a call for an element misses the cache and the manager finds
  a primary candidate, and the new entry is not older than the timeout when the cache is
  cleaned, then a second call for the element with the same cache key whose clock is less
  than the timeout after the entry returns the same result and the same cache, whatever
  the analysis, the registry and the fallback constructor of the second call are.
\<close>

theorem cached_result_reused:
  assumes "tagName (eprops el) \<noteq> []"
    and "cacheMiss cache (generateCacheKey env el) (t_check clk)"
    and "analyze env el = Inr an"
    and "managerGenerateXPath (strategies env) el (buildContext env el an) = Inr m"
    and "success m"
    and "\<not> (t_cleanup clk - t_store clk > cacheTimeout)"
    and "t_check clk2 - t_store clk < cacheTimeout"
    and "generateCacheKey env2 el = generateCacheKey env el"
  shows "\<exists>r cache1.
           generateXPathWith fb env cache clk (Elem el) = Inr (r, cache1) \<and>
           generateXPathWith fb2 env2 cache1 clk2 (Elem el) = Inr (r, cache1)"
proof -
  let ?r = "enhancedResult m el an (t_result clk)"
  let ?v = "\<lparr>data = ?r, stored_at = t_store clk\<rparr>"
  let ?c1 = "cleanupCache (t_cleanup clk) (AList.update (generateCacheKey env el) ?v cache)"
  have first: "generateXPathWith fb env cache clk (Elem el) = Inr (?r, ?c1)"
    using generate_miss [OF assms(1,2), of fb] tryBody_success [OF assms(3,4,5), of fb cache clk]
    by simp
  have "map_of ?c1 (generateCacheKey env2 el) = Some ?v"
    using map_of_cleanup_update [of "t_cleanup clk" ?v] assms(6,8) by simp
  then have "generateXPathWith fb2 env2 ?c1 clk2 (Elem el) = Inr (data ?v, ?c1)"
    using assms(1,7) by (intro generate_hit) auto
  then show ?thesis using first by simp
qed

text \<open>The theorem of claim C7 at a concrete input.\<close>

theorem cached_result_reused_witness:
  "generateXPathWith throwingFallback (envOf [fixed ''relative'' 60 ''//span'' 60] bodyA) []
     (at 0) (Elem spanA) =
     Inr (\<lparr>success = True,
            primary = Some \<lparr>strategy = ''relative'', xpath = ''//span'', score = 60,
                            cand_priority = 60\<rparr>,
            alternatives = [], rcontext = Some (), error = None,
            element = Some \<lparr>sum_tagName = ''span'', sum_text = [], sum_id = [],
                            sum_className = ClassString []\<rparr>,
            analysis = Some (), timestamp = 0\<rparr>,
          [(''key'',
            \<lparr>data = \<lparr>success = True,
                      primary = Some \<lparr>strategy = ''relative'', xpath = ''//span'', score = 60,
                                      cand_priority = 60\<rparr>,
                      alternatives = [], rcontext = Some (), error = None,
                      element = Some \<lparr>sum_tagName = ''span'', sum_text = [], sum_id = [],
                                      sum_className = ClassString []\<rparr>,
                      analysis = Some (), timestamp = 0\<rparr>,
             stored_at = 0\<rparr>)]) \<and>
   generateXPathWith throwingFallback (envOf [] bodyA)
     [(''key'',
       \<lparr>data = \<lparr>success = True,
                 primary = Some \<lparr>strategy = ''relative'', xpath = ''//span'', score = 60,
                                 cand_priority = 60\<rparr>,
                 alternatives = [], rcontext = Some (), error = None,
                 element = Some \<lparr>sum_tagName = ''span'', sum_text = [], sum_id = [],
                                 sum_className = ClassString []\<rparr>,
                 analysis = Some (), timestamp = 0\<rparr>,
        stored_at = 0\<rparr>)]
     (at 5) (Elem spanA) =
     Inr (\<lparr>success = True,
            primary = Some \<lparr>strategy = ''relative'', xpath = ''//span'', score = 60,
                            cand_priority = 60\<rparr>,
            alternatives = [], rcontext = Some (), error = None,
            element = Some \<lparr>sum_tagName = ''span'', sum_text = [], sum_id = [],
                            sum_className = ClassString []\<rparr>,
            analysis = Some (), timestamp = 0\<rparr>,
          [(''key'',
            \<lparr>data = \<lparr>success = True,
                      primary = Some \<lparr>strategy = ''relative'', xpath = ''//span'', score = 60,
                                      cand_priority = 60\<rparr>,
                      alternatives = [], rcontext = Some (), error = None,
                      element = Some \<lparr>sum_tagName = ''span'', sum_text = [], sum_id = [],
                                      sum_className = ClassString []\<rparr>,
                      analysis = Some (), timestamp = 0\<rparr>,
             stored_at = 0\<rparr>)])"
proof -
  let ?env = "envOf [fixed ''relative'' 60 ''//span'' 60] bodyA"
  have 1: "tagName (eprops spanA) \<noteq> []" by (simp add: spanA_tag)
  have 2: "cacheMiss ([] :: (unit, unit) cache) (generateCacheKey ?env spanA) (t_check (at 0))"
    by (simp add: cacheMiss_def)
  have 3: "analyze ?env spanA = Inr ()" by (simp add: envOf_def)
  have 4: "managerGenerateXPath (strategies ?env) spanA (buildContext ?env spanA ()) =
             Inr \<lparr>success = True,
                  primary = Some \<lparr>strategy = ''relative'', xpath = ''//span'', score = 60,
                                  cand_priority = 60\<rparr>,
                  alternatives = [], rcontext = Some ()\<rparr>"
    by (simp add: envOf_def relative_manager)
  have 5: "success \<lparr>success = True,
                  primary = Some \<lparr>strategy = ''relative'', xpath = ''//span'', score = 60,
                                  cand_priority = 60\<rparr>,
                  alternatives = [], rcontext = Some ()\<rparr>" by simp
  have 6: "\<not> (t_cleanup (at 0) - t_store (at 0) > cacheTimeout)"
    by (simp add: at_def cacheTimeout_def)
  have 7: "t_check (at 5) - t_store (at 0) < cacheTimeout"
    by (simp add: at_def cacheTimeout_def)
  have 8: "generateCacheKey (envOf [] bodyA) spanA = generateCacheKey ?env spanA"
    by (simp add: envOf_def)
  from cached_result_reused [OF 1 2 3 4 5 6 7 8, of throwingFallback throwingFallback]
  show ?thesis
    by (simp add: spanA_generate_relative)
qed

subsection \<open>C8\<close>

text \<open>
  Claim C8.  When a token of the element's class attribute matches one of the three
  patterns of \<open>hasRandomClasses\<close>, every candidate of a result of the manager comes from a
  strategy of the registry whose name it carries, with that strategy's score less 50 when
  the name is \<open>attribute\<close> and with that strategy's score unchanged otherwise; and the
  manager returns a result whenever the element's \<open>className\<close> is a string.
\<close>

theorem random_class_penalty:
  assumes "\<exists>cls\<in>set (classTokens el). \<exists>p\<in>set randomPatterns. rx_test p cls"
  shows "(\<forall>cn. className (eprops el) = ClassString cn \<longrightarrow>
            (\<exists>r. managerGenerateXPath ss el c = Inr r)) \<and>
         (\<forall>r. managerGenerateXPath ss el c = Inr r \<longrightarrow>
            (\<forall>a\<in>set (candidates r). \<exists>s\<in>set ss. \<exists>sc.
                tryStrategy True el c s = Some a \<and> strategy a = name s \<and>
                getScore s el c = Inr sc \<and>
                score a = (if strategy a = ''attribute'' then sc - 50 else sc)))"
proof (cases "className (eprops el)")
  case (SVGAnimatedString baseVal)
  then have "\<exists>e. managerGenerateXPath ss el c = Inl e"
    by (simp add: managerGenerateXPath_def hasRandomClasses_def)
  then show ?thesis using SVGAnimatedString by auto
next
  case (ClassString cn)
  have h: "hasRandomClasses el = Inr True"
    using ClassString assms by (intro hasRandomClasses_true) (auto simp: classTokens_def)
  then have ex: "\<exists>r. managerGenerateXPath ss el c = Inr r"
    by (auto simp: managerGenerateXPath_def Let_def)
  have "\<exists>s\<in>set ss. \<exists>sc. tryStrategy True el c s = Some a \<and> strategy a = name s \<and>
          getScore s el c = Inr sc \<and>
          score a = (if strategy a = ''attribute'' then sc - 50 else sc)"
    if r: "managerGenerateXPath ss el c = Inr r" and a: "a \<in> set (candidates r)" for r a
  proof -
    obtain s where s: "s \<in> set ss" "tryStrategy True el c s = Some a"
      using candidates_produced [OF r h a] by blast
    from tryStrategy_score [OF s(2)] obtain sc where
      "getScore s el c = Inr sc" "strategy a = name s"
      "score a = (if name s = ''attribute'' then sc - 50 else sc)" by auto
    then show ?thesis using s by auto
  qed
  then show ?thesis using ex by blast
qed

text \<open>The theorem of claim C8 at a concrete input.\<close>

theorem random_class_penalty_witness:
  "classTokens (spanWithClass ''btn _abc12'') = [''btn'', ''_abc12''] \<and>
   rx_test (randomPatterns ! 2) ''_abc12'' \<and>
   managerGenerateXPath [fixed ''attribute'' 100 ''//a'' 130, fixed ''relative'' 60 ''//b'' 90]
     (spanWithClass ''btn _abc12'') () =
     Inr \<lparr>success = True,
          primary = Some \<lparr>strategy = ''relative'', xpath = ''//b'', score = 90,
                          cand_priority = 60\<rparr>,
          alternatives = [\<lparr>strategy = ''attribute'', xpath = ''//a'', score = 80,
                           cand_priority = 100\<rparr>],
          rcontext = Some ()\<rparr>"
proof -
  have c: "className (eprops (spanWithClass ''btn _abc12'')) = ClassString ''btn _abc12''"
    by (simp add: spanWithClass_def)
  have s: "splitWs ''btn _abc12'' = [''btn'', ''_abc12'']"
    by (simp add: is_space_def startsWithSpace_def)
  have t: "classTokens (spanWithClass ''btn _abc12'') = [''btn'', ''_abc12'']"
    by (simp only: classTokens_def c classval.case s)
  have p: "rx_test (randomPatterns ! 2) ''_abc12''"
    by (simp add: randomPatterns_def hexdigits_def eval_nat_numeral)
  have m: "randomPatterns ! 2 \<in> set randomPatterns"
    by (simp add: randomPatterns_def)
  have e0: "\<exists>cls\<in>set (splitWs ''btn _abc12''). \<exists>p\<in>set randomPatterns. rx_test p cls"
    unfolding s using p m by (intro bexI [of _ "''_abc12''"] bexI [of _ "randomPatterns ! 2"]) simp_all
  have e: "\<exists>cls\<in>set (classTokens (spanWithClass ''btn _abc12'')).
             \<exists>p\<in>set randomPatterns. rx_test p cls"
    unfolding t using p m by (intro bexI [of _ "''_abc12''"] bexI [of _ "randomPatterns ! 2"]) simp_all
  have h: "hasRandomClasses (spanWithClass ''btn _abc12'') = Inr True"
    using c e0 by (rule hasRandomClasses_true)
  have g: "managerGenerateXPath
     [fixed ''attribute'' 100 ''//a'' 130, fixed ''relative'' 60 ''//b'' 90]
     (spanWithClass ''btn _abc12'') () =
     Inr \<lparr>success = True,
          primary = Some \<lparr>strategy = ''relative'', xpath = ''//b'', score = 90,
                          cand_priority = 60\<rparr>,
          alternatives = [\<lparr>strategy = ''attribute'', xpath = ''//a'', score = 80,
                           cand_priority = 100\<rparr>],
          rcontext = Some ()\<rparr>"
    by (simp add: managerGenerateXPath_def h rank_def tryStrategy_def fixed_def)
  from random_class_penalty [OF e,
      of "[fixed ''attribute'' 100 ''//a'' 130, fixed ''relative'' 60 ''//b'' 90]" "()"]
  show ?thesis
    using t p g by blast
qed

subsection \<open>C9\<close>

text \<open>
  Claim C9.  The manager orders the candidates that the strategies produced, taken in the
  order of the registry, by descending score, keeping all of them, and leaves candidates
  of equal score in the order of the registry; the primary candidate is the first of that
  order, or null when there is none, and no candidate has a higher score; the
  alternatives are the next two, so at most two.  Registering a strategy leaves the registry
  sorted by descending priority, with strategies of equal priority in the order of their
  registration.
\<close>

theorem ranking_and_tie_break:
  assumes "hasRandomClasses el = Inr h"
  shows "\<exists>r. managerGenerateXPath ss el c = Inr r \<and>
           (let produced = List.map_filter (tryStrategy h el c) ss;
                ranked = rank produced
            in strategyLoop h el c ss [] = produced \<and>
               sorted (map (\<lambda>a. - score a) ranked) \<and>
               mset ranked = mset produced \<and>
               (\<forall>k. filter (\<lambda>a. score a = k) ranked = filter (\<lambda>a. score a = k) produced) \<and>
               primary r = (case ranked of [] \<Rightarrow> None | p # ps \<Rightarrow> Some p) \<and>
               (\<forall>p. primary r = Some p \<longrightarrow> (\<forall>a\<in>set produced. score a \<le> score p)) \<and>
               alternatives r = take 2 (drop 1 ranked) \<and>
               length (alternatives r) \<le> 2 \<and>
               success r = (produced \<noteq> [])) \<and>
         sorted (map (\<lambda>a. - priority a) (registerStrategy s ss)) \<and>
         (\<forall>p. filter (\<lambda>a. priority a = p) (registerStrategy s ss) =
               filter (\<lambda>a. priority a = p) (ss @ [s]))"
proof -
  let ?produced = "List.map_filter (tryStrategy h el c) ss"
  let ?ranked = "rank ?produced"
  let ?r = "\<lparr>success = length ?ranked > 0,
             primary = (case ?ranked of [] \<Rightarrow> None | r # _ \<Rightarrow> Some r),
             alternatives = take 2 (drop 1 ?ranked), rcontext = Some c\<rparr>"
  have loop: "strategyLoop h el c ss [] = ?produced"
    by (simp add: strategyLoop_map_filter)
  have r: "managerGenerateXPath ss el c = Inr ?r"
    using assms by (simp add: managerGenerateXPath_def loop Let_def)
  have srt: "sorted (map (\<lambda>a. - score a) ?ranked)" by (rule rank_sorted)
  have ms: "mset ?ranked = mset ?produced" by (rule rank_mset)
  have st: "\<forall>k. filter (\<lambda>a. score a = k) ?ranked = filter (\<lambda>a. score a = k) ?produced"
    by (simp add: rank_stable)
  have pr: "primary ?r = (case ?ranked of [] \<Rightarrow> None | p # ps \<Rightarrow> Some p)" by simp
  have mx: "\<forall>p. primary ?r = Some p \<longrightarrow> (\<forall>a\<in>set ?produced. score a \<le> score p)"
    by (auto split: list.splits dest: rank_head_max)
  have al: "alternatives ?r = take 2 (drop 1 ?ranked)" by simp
  have le: "length (alternatives ?r) \<le> 2" by simp
  have ne: "success ?r = (?produced \<noteq> [])"
    using rank_mset [of ?produced] by (cases ?produced) (auto simp: rank_def)
  have rs: "sorted (map (\<lambda>a. - priority a) (registerStrategy s ss))" by (rule register_sorted)
  have rt: "\<forall>p. filter (\<lambda>a. priority a = p) (registerStrategy s ss) =
               filter (\<lambda>a. priority a = p) (ss @ [s])"
    using register_stable by blast
  show ?thesis
    unfolding Let_def
    by (intro exI [of _ ?r] conjI) (fact r loop srt ms st pr mx al le ne rs rt)+
qed

text \<open>The theorem of claim C9 at a concrete input.\<close>

theorem ranking_and_tie_break_witness:
  "hasRandomClasses spanA = Inr False \<and>
   managerGenerateXPath
     [fixed ''a'' 100 ''//a'' 90, fixed ''b'' 90 ''//b'' 120, fixed ''c'' 60 ''//c'' 90,
      fixed ''d'' 50 ''//d'' 10] spanA () =
     Inr \<lparr>success = True,
          primary = Some \<lparr>strategy = ''b'', xpath = ''//b'', score = 120, cand_priority = 90\<rparr>,
          alternatives =
            [\<lparr>strategy = ''a'', xpath = ''//a'', score = 90, cand_priority = 100\<rparr>,
             \<lparr>strategy = ''c'', xpath = ''//c'', score = 90, cand_priority = 60\<rparr>],
          rcontext = Some ()\<rparr> \<and>
   map name (registerStrategy (fixed ''e'' 90 ''//e'' 1)
     [fixed ''a'' 100 ''//a'' 90, fixed ''b'' 90 ''//b'' 120, fixed ''c'' 60 ''//c'' 90,
      fixed ''d'' 50 ''//d'' 10]) = [''a'', ''b'', ''e'', ''c'', ''d'']"
proof -
  have h: "hasRandomClasses spanA = Inr False"
    by (simp add: hasRandomClasses_def spanA_class)
  from ranking_and_tie_break [OF h, of "[fixed ''a'' 100 ''//a'' 90, fixed ''b'' 90 ''//b'' 120,
      fixed ''c'' 60 ''//c'' 90, fixed ''d'' 50 ''//d'' 10]" "()" "fixed ''e'' 90 ''//e'' 1"]
  show ?thesis
    using h
    by (simp add: managerGenerateXPath_def rank_def tryStrategy_def fixed_def registerStrategy_def)
qed

subsection \<open>C10\<close>

text \<open>
  Claim C10.  The fallback constructor never returns the empty string, and it returns
  \<open>//tag\<close> when its loop leaves no segment.  With any fallback constructor in its place, the
  coordinator's result of the failure after the strategies arises only when that
  constructor throws or returns the empty string; with the constructor as it is, it does
  not arise.  (The cache is one that the coordinator built.)
\<close>

theorem fallback_never_empty:
  "generateFallbackXPath b el \<noteq> [] \<and>
   (fallbackLoop b (Some el) [] = [] \<longrightarrow>
      generateFallbackXPath b el = ''//'' @ toLowerCase (tagName (eprops el))) \<and>
   (cacheOK cache \<longrightarrow> generateXPathWith fb env cache clk v = Inr (r, c') \<longrightarrow>
      error r = Some NoValidXPath \<longrightarrow>
      (\<exists>el'. v = Elem el' \<and> ((\<exists>e. fb el' = Inl e) \<or> fb el' = Inr []))) \<and>
   (cacheOK cache2 \<longrightarrow> generateXPath env2 cache2 clk2 v2 = Inr (r2, c2) \<longrightarrow>
      error r2 \<noteq> Some NoValidXPath)"
proof (intro conjI impI)
  show "generateFallbackXPath b el \<noteq> []" by (rule generateFallbackXPath_nonempty)
  show "generateFallbackXPath b el = ''//'' @ toLowerCase (tagName (eprops el))"
    if "fallbackLoop b (Some el) [] = []"
    using that by (simp add: generateFallbackXPath_def)
  show "\<exists>el'. v = Elem el' \<and> ((\<exists>e. fb el' = Inl e) \<or> fb el' = Inr [])"
    if "cacheOK cache" "generateXPathWith fb env cache clk v = Inr (r, c')"
      "error r = Some NoValidXPath"
    using that by (rule generateXPath_not_failed)
  show "error r2 \<noteq> Some NoValidXPath"
    if ok: "cacheOK cache2" and g: "generateXPath env2 cache2 clk2 v2 = Inr (r2, c2)"
  proof
    assume "error r2 = Some NoValidXPath"
    with generateXPath_not_failed [OF ok g [unfolded generateXPath_def]]
    show False by (simp add: generateFallbackXPath_nonempty)
  qed
qed

text \<open>The theorem of claim C10 at a concrete input.\<close>

theorem fallback_never_empty_witness:
  "fallbackLoop (Some bodyA) (Some bodyA) [] = [] \<and>
   generateFallbackXPath (Some bodyA) bodyA = ''//body'' \<and>
   cacheOK ([] :: (unit, unit) cache) \<and>
   generateXPathWith throwingFallback (envOf [] bodyA) [] (at 0) (Elem spanA) =
     Inr (failedResult spanA () 0, []) \<and>
   error (failedResult spanA () 0 :: (unit, unit) generation) = Some NoValidXPath \<and>
   throwingFallback spanA = Inl (Exn ''boom'') \<and>
   generateXPath (envOf [] bodyA) [] (at 0) (Elem spanA) =
     Inr (fallbackResult spanA () ''/div[1]/span[1]'' 0, []) \<and>
   error (fallbackResult spanA () ''/div[1]/span[1]'' 0 :: (unit, unit) generation) = None"
  using fallback_never_empty [of "Some bodyA" bodyA "[] :: (unit, unit) cache" throwingFallback
      "envOf [] bodyA" "at 0" "Elem spanA" "failedResult spanA () 0" "[]"
      "[] :: (unit, unit) cache" "envOf [] bodyA" "at 0" "Elem spanA"
      "fallbackResult spanA () ''/div[1]/span[1]'' 0" "[]"]
  by (simp add: bodyA_fallback spanA_generate_failed spanA_generate_fallback cacheOK_def
        failedResult_def fallbackResult_def throwingFallback_def)

end
